theory Spec2Isabelle
  imports Main
begin

section \<open>The component registry and the element importer (src/plugins/import-element.js)\<close>

text \<open>
  Errors are values. \<open>NameAlreadyUsed name\<close> is the \<^verbatim>\<open>Error\<close> thrown by
  \<^verbatim>\<open>define\<close>, whose message carries the name; \<open>InvalidPath path\<close> is the one thrown
  by \<^verbatim>\<open>importElement\<close> for a path with no usable file name; \<open>Rejected msg\<close> is
  whatever a collaborator outside the repository (\<^verbatim>\<open>require.resolve\<close>,
  \<^verbatim>\<open>esbuild\<close>, the dynamic \<^verbatim>\<open>import()\<close>, fastify, ...) throws or rejects with,
  \<open>msg\<close> being its message.
\<close>

datatype error =
    NameAlreadyUsed string
  | InvalidPath string
  | Rejected string

text \<open>
  A constructor is an opaque class reference with an optional static
  \<^verbatim>\<open>observedAttributes\<close>. The second argument of \<^verbatim>\<open>define\<close> is a
  \<open>ctor option\<close>: \<open>None\<close> is a falsy value (\<^verbatim>\<open>undefined\<close>, as \<^verbatim>\<open>Element\<close> is
  after a failed development-mode import or for a module without default export).
\<close>

record ctor =
  ctor_id :: nat
  ctor_observedAttributes :: "string list option"

record element_definition =
  def_ctor :: ctor
  observedAttributes :: "string list"

record CustomElementRegistry =
  definitions :: "string \<rightharpoonup> element_definition"
  development :: bool

definition new_registry :: "bool \<Rightarrow> CustomElementRegistry" where
  "new_registry dv = \<lparr>definitions = Map.empty, development = dv\<rparr>"

text \<open>\<^verbatim>\<open>ctor.observedAttributes ?? []\<close>\<close>

definition observed_or_empty :: "ctor \<Rightarrow> string list" where
  "observed_or_empty c = (case ctor_observedAttributes c of None \<Rightarrow> [] | Some xs \<Rightarrow> xs)"

text \<open>
  \<^verbatim>\<open>define(name, ctor)\<close>: the falsy guard first, then the duplicate check that is
  switched off in development mode, then \<^verbatim>\<open>Map.set\<close>. A falsy name is the empty
  string.
\<close>

definition "define" :: "CustomElementRegistry \<Rightarrow> string \<Rightarrow> ctor option \<Rightarrow> error + CustomElementRegistry" where
  "define r name c =
     (if name = [] \<or> c = None then Inr r
      else if \<not> development r \<and> definitions r name \<noteq> None then Inl (NameAlreadyUsed name)
      else Inr (r\<lparr>definitions := (definitions r)(name \<mapsto>
                  \<lparr>def_ctor = the c, observedAttributes = observed_or_empty (the c)\<rparr>)\<rparr>))"

text \<open>\<^verbatim>\<open>get(name)\<close>: \<^verbatim>\<open>definition?.ctor\<close>, \<open>None\<close> for \<^verbatim>\<open>undefined\<close>.\<close>

definition get :: "CustomElementRegistry \<Rightarrow> string \<Rightarrow> ctor option" where
  "get r name = map_option def_ctor (definitions r name)"

subsection \<open>importElement\<close>

text \<open>
  What a call does to the outside is recorded as a list of events, oldest first. The
  four kinds of I/O are \<open>Resolve\<close> (\<^verbatim>\<open>require.resolve\<close>), \<open>Stat\<close>, \<open>Bundle\<close>
  (\<^verbatim>\<open>esbuild.build\<close>, with entry point and outfile) and \<open>Import\<close> (the dynamic
  \<^verbatim>\<open>import()\<close> of the outfile); the rest are the metrics timers and the logger.
\<close>

datatype event =
    TimerStart string
  | TimerEnd string
  | Resolve string
  | Stat string
  | Bundle string string
  | Import string
  | LogError error
  | LogDebug string

fun is_io :: "event \<Rightarrow> bool" where
  "is_io (Resolve p) = True"
| "is_io (Stat p) = True"
| "is_io (Bundle f out) = True"
| "is_io (Import out) = True"
| "is_io e = False"

fun is_bundle :: "event \<Rightarrow> bool" where
  "is_bundle (Bundle f out) = True"
| "is_bundle e = False"

fun is_import :: "event \<Rightarrow> bool" where
  "is_import (Import out) = True"
| "is_import e = False"

text \<open>
  The options the plugin is registered with. \<^verbatim>\<open>outdir\<close> is
  \<^verbatim>\<open>join(cwd, 'dist', 'server')\<close>.
\<close>

record plugin =
  appName :: string
  plugin_development :: bool
  cwd :: string

definition outdir :: "plugin \<Rightarrow> string" where
  "outdir p = cwd p @ ''/dist/server''"

text \<open>
  The collaborators outside the repository, as they answer during one call:
  \<^verbatim>\<open>parse(path).name\<close> of node:path, \<^verbatim>\<open>require.resolve\<close>, whether \<^verbatim>\<open>stat\<close>
  of a file succeeds, the error \<^verbatim>\<open>esbuild.build\<close> rejects with (if any) for an
  entry point and an outfile, and the default export of the freshly imported
  outfile (or the error the import rejects with).
\<close>

record world =
  parse_name :: "string \<Rightarrow> string"
  require_resolve :: "string \<Rightarrow> error + string"
  stat_ok :: "string \<Rightarrow> bool"
  esbuild_build :: "string \<Rightarrow> string \<Rightarrow> error option"
  import_default :: "string \<Rightarrow> error + ctor option"

text \<open>The process-wide state: the \<^verbatim>\<open>customElements\<close> global and the events so far.\<close>

record plugin_state =
  customElements :: CustomElementRegistry
  events :: "event list"

text \<open>
  Registering the plugin replaces the \<^verbatim>\<open>customElements\<close> shim by a registry
  created with the plugin's own development flag.
\<close>

definition plugin_start :: "plugin \<Rightarrow> plugin_state" where
  "plugin_start p = \<lparr>customElements = new_registry (plugin_development p), events = []\<rparr>"

definition emit :: "event \<Rightarrow> plugin_state \<Rightarrow> plugin_state" where
  "emit e s = s\<lparr>events := events s @ [e]\<rparr>"

definition outfile_of :: "plugin \<Rightarrow> string \<Rightarrow> string" where
  "outfile_of p name = outdir p @ ''/'' @ name @ ''.js''"

definition registry_key :: "plugin \<Rightarrow> string \<Rightarrow> string" where
  "registry_key p name = appName p @ ''-'' @ name"

text \<open>
  \<^verbatim>\<open>require.resolve(path, { paths: [cwd] })\<close> in its try/catch: a failure is
  logged and rethrown in production only; in development \<^verbatim>\<open>filepath\<close> stays
  \<^verbatim>\<open>''\<close>.
\<close>

definition resolve_step :: "plugin \<Rightarrow> world \<Rightarrow> string \<Rightarrow> plugin_state \<Rightarrow> (error + string) \<times> plugin_state" where
  "resolve_step p w path s =
     (let s1 = emit (Resolve path) s in
      case require_resolve w path of
        Inr filepath \<Rightarrow> (Inr filepath, s1)
      | Inl err \<Rightarrow>
          (let s2 = emit (LogError err) s1 in
           if \<not> plugin_development p then (Inl err, s2) else (Inr [], s2)))"

text \<open>
  The \<^verbatim>\<open>stat\<close> of the outfile and the bundling that follows when in development
  or when the stat failed. The catch around \<^verbatim>\<open>esbuild.build\<close> only logs.
\<close>

definition bundle_step :: "plugin \<Rightarrow> world \<Rightarrow> string \<Rightarrow> string \<Rightarrow> plugin_state \<Rightarrow> plugin_state" where
  "bundle_step p w filepath outfile s =
     (let s1 = emit (Stat outfile) s;
          exists = stat_ok w outfile in
      if plugin_development p \<or> \<not> exists then
        (let s2 = emit (TimerStart ''bundling'') s1;
             s3 = emit (LogDebug (''Bundling '' @ filepath @ '' to '' @ outfile)) s2;
             s4 = emit (Bundle filepath outfile) s3;
             s5 = (case esbuild_build w filepath outfile of
                     Some err \<Rightarrow> emit (LogError err) s4
                   | None \<Rightarrow> s4)
         in emit (TimerEnd ''bundling'') s5)
      else s1)"

text \<open>
  The dynamic import of the outfile: a failure is logged and rethrown in
  production only; in development \<^verbatim>\<open>Element\<close> stays \<^verbatim>\<open>undefined\<close>.
\<close>

definition import_step :: "plugin \<Rightarrow> world \<Rightarrow> string \<Rightarrow> plugin_state \<Rightarrow> (error + ctor option) \<times> plugin_state" where
  "import_step p w outfile s =
     (let s1 = emit (TimerStart ''import_file'') s;
          s2 = emit (Import outfile) s1 in
      case import_default w outfile of
        Inr element \<Rightarrow> (Inr element, emit (TimerEnd ''import_file'') s2)
      | Inl err \<Rightarrow>
          (let s3 = emit (LogError err) s2 in
           if \<not> plugin_development p then (Inl err, s3)
           else (Inr None, emit (TimerEnd ''import_file'') s3)))"

text \<open>\<^verbatim>\<open>customElements.define\<close> in its try/catch, rethrowing in production only.\<close>

definition define_step :: "plugin \<Rightarrow> string \<Rightarrow> ctor option \<Rightarrow> plugin_state \<Rightarrow> (error + unit) \<times> plugin_state" where
  "define_step p key element s =
     (case define (customElements s) key element of
        Inr r \<Rightarrow> (Inr (), s\<lparr>customElements := r\<rparr>)
      | Inl err \<Rightarrow>
          (let s1 = emit (LogError err) s in
           if \<not> plugin_development p then (Inl err, s1) else (Inr (), s1)))"

text \<open>
  \<^verbatim>\<open>importElement(path)\<close>. The function returns no value: \<open>Inr ()\<close> is a call that
  completes, \<open>Inl e\<close> one that throws \<open>e\<close>.
\<close>

definition importElement :: "plugin \<Rightarrow> world \<Rightarrow> string \<Rightarrow> plugin_state \<Rightarrow> (error + unit) \<times> plugin_state" where
  "importElement p w path s =
     (let s0 = emit (TimerStart ''import_element'') s;
          name = parse_name w path in
      if name = [] \<or> name = ''.'' then (Inl (InvalidPath path), s0)
      else
        let outfile = outfile_of p name;
            key = registry_key p name in
        if \<not> plugin_development p \<and> get (customElements s0) key \<noteq> None then (Inr (), s0)
        else
          case resolve_step p w path s0 of
            (Inl err, s1) \<Rightarrow> (Inl err, s1)
          | (Inr filepath, s1) \<Rightarrow>
              (let s2 = bundle_step p w filepath outfile s1 in
               case import_step p w outfile s2 of
                 (Inl err, s3) \<Rightarrow> (Inl err, s3)
               | (Inr element, s3) \<Rightarrow>
                   (case define_step p key element s3 of
                      (Inl err, s4) \<Rightarrow> (Inl err, s4)
                    | (Inr u, s4) \<Rightarrow> (Inr (), emit (TimerEnd ''import_element'') s4))))"

text \<open>The events a call adds to those that were there before it.\<close>

definition new_events :: "plugin_state \<Rightarrow> plugin_state \<Rightarrow> event list" where
  "new_events s s' = drop (length (events s)) (events s')"

text \<open>
  Three notions the statements below use. A name is usable when it passes the guard
  \<^verbatim>\<open>!name || name === '.'\<close>. \<open>resolved_path\<close> is \<^verbatim>\<open>filepath\<close> as the bundling
  step sees it. A call reaches the bundling step when it has not left before it:
  the name is usable and, in production, the key is not registered yet and the
  path resolves.
\<close>

definition valid_name :: "string \<Rightarrow> bool" where
  "valid_name name = (\<not> (name = [] \<or> name = ''.''))"

definition resolved_path :: "world \<Rightarrow> string \<Rightarrow> string" where
  "resolved_path w path = (case require_resolve w path of Inr f \<Rightarrow> f | Inl e \<Rightarrow> [])"

definition reaches_bundling :: "plugin \<Rightarrow> world \<Rightarrow> string \<Rightarrow> plugin_state \<Rightarrow> bool" where
  "reaches_bundling p w path s =
     (valid_name (parse_name w path) \<and>
      (plugin_development p \<or>
        (get (customElements s) (registry_key p (parse_name w path)) = None \<and>
         \<not> isl (require_resolve w path))))"


section \<open>The content and fallback routes (the plugin that follows dev.js in src/api/dev.js)\<close>

text \<open>
  The configuration values the two routes read. \<^verbatim>\<open>mode\<close> is
  \<^verbatim>\<open>config.get('app.mode') || 'hydrate'\<close> and \<^verbatim>\<open>version\<close> is
  \<^verbatim>\<open>config.get('podlet.version') || null\<close>, printed as \<^verbatim>\<open>null\<close> by the templates.
\<close>

record route_config =
  app_name :: string
  app_mode :: string
  app_development :: bool
  podlet_version :: "string option"
  app_locale :: string
  route_prefix :: string
  config_cwd :: string
  contentFilePath :: string
  fallbackFilePath :: string

definition mode :: "route_config \<Rightarrow> string" where
  "mode cfg = (if app_mode cfg = [] then ''hydrate'' else app_mode cfg)"

definition version_text :: "route_config \<Rightarrow> string" where
  "version_text cfg = (case podlet_version cfg of None \<Rightarrow> ''null'' | Some v \<Rightarrow> v)"

text \<open>The options \<^verbatim>\<open>importElementPn\<close> is registered with.\<close>

definition import_plugin :: "route_config \<Rightarrow> plugin" where
  "import_plugin cfg =
     \<lparr>appName = app_name cfg, plugin_development = app_development cfg, cwd = config_cwd cfg\<rparr>"

text \<open>
  \<^verbatim>\<open>joinURLPathSegments\<close>: the segments joined by a slash, every run of slashes
  replaced by one.
\<close>

fun collapse_slashes :: "string \<Rightarrow> string" where
  "collapse_slashes (a # b # cs) =
     (if a = CHR ''/'' \<and> b = CHR ''/'' then collapse_slashes (b # cs)
      else a # collapse_slashes (b # cs))"
| "collapse_slashes cs = cs"

fun join_with_slash :: "string list \<Rightarrow> string" where
  "join_with_slash [] = []"
| "join_with_slash [x] = x"
| "join_with_slash (x # y # ys) = x @ ''/'' @ join_with_slash (y # ys)"

definition joinURLPathSegments :: "string list \<Rightarrow> string" where
  "joinURLPathSegments segments = collapse_slashes (join_with_slash segments)"

text \<open>
  The lit template of a route, by the values interpolated into it, and the raw tag
  string the client-side branch builds from the same values.
\<close>

record template =
  tag :: string
  tpl_version :: string
  tpl_locale :: string
  tpl_translations :: string
  tpl_initial_state :: string

definition raw_tag :: "template \<Rightarrow> string" where
  "raw_tag t =
     ''<'' @ tag t @ '' version='' @ [CHR 0x22] @ tpl_version t @ [CHR 0x22] @
     '' locale='' @ [CHR 0x27] @ tpl_locale t @ [CHR 0x27] @
     '' translations='' @ [CHR 0x27] @ tpl_translations t @ [CHR 0x27] @
     '' initial-state='' @ [CHR 0x27] @ tpl_initial_state t @ [CHR 0x27] @
     ''></'' @ tag t @ ''>''"

text \<open>
  The pieces of a response body are the results of the decorators of other plugins,
  kept as the calls that made them: \<^verbatim>\<open>f.script(url, { dev })\<close>,
  \<^verbatim>\<open>f.ssr(route, template)\<close>, \<^verbatim>\<open>f.csr(route, rawTag)\<close> and
  \<^verbatim>\<open>f.hydrate(route, template)\<close>. A body is the list of its pieces in order; the
  empty string is the empty list.
\<close>

datatype markup =
    Script string bool
  | Ssr string template
  | Csr string string
  | Hydrate string template

definition hydrate_support_url :: "route_config \<Rightarrow> string" where
  "hydrate_support_url cfg =
     joinURLPathSegments [route_prefix cfg,
       ''/_/dynamic/modules/@lit-labs/ssr-client/lit-element-hydrate-support.js'']"

text \<open>
  What the collaborators answer during one request: the route's state function
  (\<open>Inr None\<close> a falsy result, \<open>Inr (Some j)\<close> a result whose \<^verbatim>\<open>JSON.stringify\<close> is
  \<open>j\<close>), \<^verbatim>\<open>f.readTranslations()\<close> likewise, and the error a rendering decorator
  throws, if it does.
\<close>

record request_world =
  state_fn :: "error + string option"
  read_translations :: "error + string option"
  render_result :: "markup \<Rightarrow> error option"

text \<open>
  The reply: \<open>reply_body = None\<close> is a reply on which \<^verbatim>\<open>send\<close> was never called.
\<close>

record reply =
  reply_type :: "string option"
  reply_body :: "markup list option"
  logged :: "error list"
  timing :: bool

definition failed_reply :: "error \<Rightarrow> reply" where
  "failed_reply err = \<lparr>reply_type = None, reply_body = None, logged = [err], timing = True\<rparr>"

definition sent_reply :: "markup list \<Rightarrow> reply" where
  "sent_reply b =
     \<lparr>reply_type = Some ''text/html; charset=utf-8'', reply_body = Some b, logged = [], timing = True\<rparr>"

text \<open>A decorator call that may throw.\<close>

definition render :: "request_world \<Rightarrow> markup \<Rightarrow> error + markup" where
  "render rw m = (case render_result rw m of Some err \<Rightarrow> Inl err | None \<Rightarrow> Inr m)"

text \<open>\<^verbatim>\<open>hydrateSupport\<close>: the script of the hydrate mode, or the empty string.\<close>

definition hydrateSupport :: "route_config \<Rightarrow> request_world \<Rightarrow> error + markup list" where
  "hydrateSupport cfg rw =
     (if mode cfg = ''hydrate''
      then (case render rw (Script (hydrate_support_url cfg) (app_development cfg)) of
              Inl err \<Rightarrow> Inl err | Inr m \<Rightarrow> Inr [m])
      else Inr [])"

text \<open>The if/else-if/else chain of the content route.\<close>

definition content_markup :: "route_config \<Rightarrow> request_world \<Rightarrow> template \<Rightarrow> error + markup" where
  "content_markup cfg rw t =
     (if mode cfg = ''ssr-only'' then render rw (Ssr ''content'' t)
      else if mode cfg = ''csr-only'' then render rw (Csr ''content'' (raw_tag t))
      else render rw (Hydrate ''content'' t))"

text \<open>The if/else-if/else chain of the fallback route, whose first test is \<^verbatim>\<open>!==\<close>.\<close>

definition fallback_markup :: "route_config \<Rightarrow> request_world \<Rightarrow> template \<Rightarrow> error + markup" where
  "fallback_markup cfg rw t =
     (if mode cfg \<noteq> ''ssr-only'' then render rw (Ssr ''fallback'' t)
      else if mode cfg = ''csr-only'' then render rw (Csr ''fallback'' (raw_tag t))
      else render rw (Hydrate ''fallback'' t))"

text \<open>
  \<^verbatim>\<open>initialState\<close> is \<^verbatim>\<open>JSON.stringify(state || '')\<close>, two double quotes for a
  falsy state; \<^verbatim>\<open>translations\<close> is \<^verbatim>\<open>messages ? JSON.stringify(messages) : ''\<close>;
  the template interpolates both, with the tag \<^verbatim>\<open>${name}-${route}\<close>.
\<close>

definition initial_state_text :: "string option \<Rightarrow> string" where
  "initial_state_text st = (case st of None \<Rightarrow> [CHR 0x22, CHR 0x22] | Some j \<Rightarrow> j)"

definition translations_text :: "string option \<Rightarrow> string" where
  "translations_text messages = (case messages of None \<Rightarrow> [] | Some j \<Rightarrow> j)"

definition route_template :: "route_config \<Rightarrow> string \<Rightarrow> string option \<Rightarrow> string option \<Rightarrow> template" where
  "route_template cfg route st messages =
     \<lparr>tag = app_name cfg @ ''-'' @ route, tpl_version = version_text cfg,
      tpl_locale = app_locale cfg, tpl_translations = translations_text messages,
      tpl_initial_state = initial_state_text st\<rparr>"

text \<open>
  The body of both handlers, which differ in the file they import, in the tag and
  in the chain that picks the markup. Any exception ends in the catch, which logs
  and returns the reply as it is.
\<close>

definition route_handler ::
  "string \<Rightarrow> string \<Rightarrow> (route_config \<Rightarrow> request_world \<Rightarrow> template \<Rightarrow> error + markup) \<Rightarrow>
   route_config \<Rightarrow> world \<Rightarrow> request_world \<Rightarrow> plugin_state \<Rightarrow> reply \<times> plugin_state" where
  "route_handler route filePath pick cfg w rw s =
     (case (if mode cfg = ''ssr-only'' \<or> mode cfg = ''hydrate''
            then importElement (import_plugin cfg) w filePath s
            else (Inr (), s)) of
        (Inl err, s1) \<Rightarrow> (failed_reply err, s1)
      | (Inr u, s1) \<Rightarrow>
          (case state_fn rw of
             Inl err \<Rightarrow> (failed_reply err, s1)
           | Inr st \<Rightarrow>
               (case read_translations rw of
                  Inl err \<Rightarrow> (failed_reply err, s1)
                | Inr messages \<Rightarrow>
                    (let t = route_template cfg route st messages in
                     case hydrateSupport cfg rw of
                       Inl err \<Rightarrow> (failed_reply err, s1)
                     | Inr support \<Rightarrow>
                         (case pick cfg rw t of
                            Inl err \<Rightarrow> (failed_reply err, s1)
                          | Inr m \<Rightarrow> (sent_reply (support @ [m]), s1))))))"

definition content_route :: "route_config \<Rightarrow> world \<Rightarrow> request_world \<Rightarrow> plugin_state \<Rightarrow> reply \<times> plugin_state" where
  "content_route cfg = route_handler ''content'' (contentFilePath cfg) content_markup cfg"

definition fallback_route :: "route_config \<Rightarrow> world \<Rightarrow> request_world \<Rightarrow> plugin_state \<Rightarrow> reply \<times> plugin_state" where
  "fallback_route cfg = route_handler ''fallback'' (fallbackFilePath cfg) fallback_markup cfg"

text \<open>
  The table of section 4.3 of the specification, written from its words for
  comparison with what the routes send: for each of the three modes the script that
  comes first, if any, and the source of the markup. A mode outside the table has
  no row.
\<close>

definition spec_table_body :: "string \<Rightarrow> route_config \<Rightarrow> template \<Rightarrow> markup list option" where
  "spec_table_body route cfg t =
     (if mode cfg = ''ssr-only'' then Some [Ssr route t]
      else if mode cfg = ''csr-only'' then Some [Csr route (raw_tag t)]
      else if mode cfg = ''hydrate''
        then Some [Script (hydrate_support_url cfg) (app_development cfg), Hydrate route t]
      else None)"

section \<open>The development server (src/api/dev.js)\<close>

text \<open>
  What the Path Resolver returns for a logical entry name. The resolver itself
  (lib/path.js) is a parameter of the model.
\<close>

record resolution =
  res_path :: string
  res_exists :: bool

text \<open>
  An esbuild context, by the handle that tells one session from another and the
  options it was opened with that vary (\<^verbatim>\<open>entryPoints\<close>; \<^verbatim>\<open>outdir\<close> is always
  \<^verbatim>\<open>CLIENT_OUTDIR\<close>).
\<close>

record build_context =
  handle :: nat
  entryPoints :: "string list"
  ctx_outdir :: string

text \<open>
  The listener of a fastify instance: not asked to listen, asked to (the promise of
  \<^verbatim>\<open>listen\<close> not yet settled), bound to a port, or closed.
\<close>

datatype listener = NotListening | ListenPending nat | Listening nat | Closed

record server_app =
  app_id :: nat
  app_listener :: listener

text \<open>The calls that leave the process, and the log lines, in the order they are made.\<close>

datatype dev_event =
    ConsoleClear
  | ConsoleLog string
  | Debug string
  | ErrorLog error
  | Info string
  | CallCreateBuildContext
  | ResolveEntry string
  | OpenContext "string list"
  | ServeContext nat nat
  | Rebuild nat
  | Dispose nat
  | Reload
  | Setup nat
  | Close nat
  | Listen nat nat
  | UnhandledRejection error

text \<open>
  The collaborators as they answer during one handler run: the Path Resolver (the
  disk as it is now), esbuild's \<^verbatim>\<open>context\<close>, \<^verbatim>\<open>serve\<close> and \<^verbatim>\<open>rebuild\<close> (the
  error they reject with, if any), \<^verbatim>\<open>join("dist", entryPoint.replace(cwd, ""))\<close>,
  \<^verbatim>\<open>local.reload()\<close>, the construction, closing and listening of a fastify
  instance, and the configured port. \<^verbatim>\<open>dispose\<close> has no entry: esbuild's
  \<^verbatim>\<open>dispose\<close> always resolves. When both \<^verbatim>\<open>setup\<close> and \<^verbatim>\<open>close\<close> reject,
  \<open>close_rejects_first\<close> says which rejection \<^verbatim>\<open>Promise.all\<close> sees first.
\<close>

record dev_world =
  resolve :: "string \<Rightarrow> resolution"
  esbuild_context :: "string list \<Rightarrow> error option"
  serve_result :: "error option"
  rebuild_result :: "build_context \<Rightarrow> error option"
  dist_file :: "string \<Rightarrow> string"
  reload_result :: "error option"
  setup_result :: "error option"
  close_result :: "error option"
  close_rejects_first :: bool
  listen_result :: "error option"
  config_app_port :: nat
  client_outdir :: string

text \<open>
  The variables of \<^verbatim>\<open>dev\<close> that its closures share, the \<^verbatim>\<open>app\<close> field of the
  \<^verbatim>\<open>DevServer\<close>, and the trace. \<open>next_handle\<close> and \<open>next_app\<close> number the objects
  that esbuild and fastify hand out.
\<close>

record dev_state =
  buildContext :: build_context
  clientFiles :: "string list"
  CONTENT_FILEPATH :: "resolution option"
  FALLBACK_FILEPATH :: "resolution option"
  next_handle :: nat
  app :: "server_app option"
  next_app :: nat
  trace :: "dev_event list"

definition record_event :: "dev_event \<Rightarrow> dev_state \<Rightarrow> dev_state" where
  "record_event e s = s\<lparr>trace := trace s @ [e]\<rparr>"

text \<open>\<^verbatim>\<open>if (r.exists) entryPoints.push(r.path)\<close>\<close>

definition push_if_exists :: "resolution \<Rightarrow> string list \<Rightarrow> string list" where
  "push_if_exists r eps = (if res_exists r then eps @ [res_path r] else eps)"

text \<open>
  \<^verbatim>\<open>createBuildContext()\<close>: the four resolutions, the entry-point list, the output
  names appended to \<^verbatim>\<open>clientFiles\<close>, then \<^verbatim>\<open>context\<close> and \<^verbatim>\<open>serve\<close>, either of
  which may reject.
\<close>

definition createBuildContext :: "dev_world \<Rightarrow> dev_state \<Rightarrow> (error + build_context) \<times> dev_state" where
  "createBuildContext w s =
     (let s0 = record_event CallCreateBuildContext s;
          content = resolve w ''./content'';
          s1 = record_event (ResolveEntry ''./content'') (s0\<lparr>CONTENT_FILEPATH := Some content\<rparr>);
          fallback = resolve w ''./fallback'';
          s2 = record_event (ResolveEntry ''./fallback'') (s1\<lparr>FALLBACK_FILEPATH := Some fallback\<rparr>);
          scripts = resolve w ''./scripts'';
          s3 = record_event (ResolveEntry ''./scripts'') s2;
          lazy = resolve w ''./lazy'';
          s4 = record_event (ResolveEntry ''./lazy'') s3;
          eps = push_if_exists lazy (push_if_exists scripts
                  (push_if_exists fallback (push_if_exists content [])));
          s5 = s4\<lparr>clientFiles := clientFiles s4 @ map (dist_file w) eps\<rparr>;
          s6 = record_event (OpenContext eps) s5 in
      case esbuild_context w eps of
        Some err \<Rightarrow> (Inl err, s6)
      | None \<Rightarrow>
          (let ctx = \<lparr>handle = next_handle s6, entryPoints = eps, ctx_outdir = client_outdir w\<rparr>;
               s7 = record_event (ServeContext (handle ctx) 6935) (s6\<lparr>next_handle := Suc (next_handle s6)\<rparr>) in
           case serve_result w of
             Some err \<Rightarrow> (Inl err, s7)
           | None \<Rightarrow> (Inr ctx, s7)))"

text \<open>\<^verbatim>\<open>clientFiles.join(", ")\<close>\<close>

fun join_comma :: "string list \<Rightarrow> string" where
  "join_comma [] = []"
| "join_comma [x] = x"
| "join_comma (x # y # ys) = x @ '', '' @ join_comma (y # ys)"

text \<open>
  The handler \<^verbatim>\<open>clientFileChange(type)\<close> returns, run on one event. A rejection
  of \<^verbatim>\<open>createBuildContext\<close> in the catch leaves the handler (\<open>Inl\<close>) with
  \<^verbatim>\<open>buildContext\<close> as it was.
\<close>

definition clientFileChange :: "dev_world \<Rightarrow> string \<Rightarrow> string \<Rightarrow> dev_state \<Rightarrow> (error + unit) \<times> dev_state" where
  "clientFileChange w type filename s =
     (let s0 = record_event (Debug (''file '' @ type @ '': '' @ filename))
                 (record_event (ConsoleLog ''Podium Podlet Server'') (record_event ConsoleClear s));
          s1 = record_event (Rebuild (handle (buildContext s0))) s0 in
      case rebuild_result w (buildContext s1) of
        None \<Rightarrow> (Inr (), record_event (Debug (''bundles rebuilt: '' @ join_comma (clientFiles s1))) s1)
      | Some err \<Rightarrow>
          (let s2 = record_event (Dispose (handle (buildContext s1))) s1 in
           case createBuildContext w s2 of
             (Inl err2, s3) \<Rightarrow> (Inl err2, s3)
           | (Inr ctx, s3) \<Rightarrow>
               (Inr (), record_event (Debug (''bundles rebuilt: '' @ join_comma (clientFiles s3)))
                          (s3\<lparr>buildContext := ctx\<rparr>))))"

text \<open>The events a handler run adds to the trace.\<close>

definition new_trace :: "dev_state \<Rightarrow> dev_state \<Rightarrow> dev_event list" where
  "new_trace s s' = drop (length (trace s)) (trace s')"

subsection \<open>DevServer\<close>

text \<open>
  \<^verbatim>\<open>setup()\<close> builds a fastify instance and registers the server plugins, which
  may reject.
\<close>

definition setup_app :: "dev_world \<Rightarrow> dev_state \<Rightarrow> (error + server_app) \<times> dev_state" where
  "setup_app w s =
     (let s1 = record_event (Setup (next_app s)) s in
      case setup_result w of
        Some err \<Rightarrow> (Inl err, s1)
      | None \<Rightarrow> (Inr \<lparr>app_id = next_app s, app_listener = NotListening\<rparr>, s1\<lparr>next_app := Suc (next_app s)\<rparr>))"

text \<open>\<^verbatim>\<open>start()\<close> awaits \<^verbatim>\<open>listen\<close>: it returns with the port bound, or throws.\<close>

definition start :: "dev_world \<Rightarrow> dev_state \<Rightarrow> (error + unit) \<times> dev_state" where
  "start w s =
     (case setup_app w s of
        (Inl err, s1) \<Rightarrow> (Inl err, s1)
      | (Inr a, s1) \<Rightarrow>
          (let s2 = record_event (Listen (app_id a) (config_app_port w)) (s1\<lparr>app := Some a\<rparr>) in
           case listen_result w of
             Some err \<Rightarrow> (Inl err, s2)
           | None \<Rightarrow>
               (Inr (), record_event (Info ''Development server listening'')
                          (s2\<lparr>app := Some (a\<lparr>app_listener := Listening (config_app_port w)\<rparr>)\<rparr>))))"

text \<open>\<^verbatim>\<open>this.app?.close()\<close>: nothing without an app; a close that resolves leaves it closed.\<close>

definition close_app :: "dev_world \<Rightarrow> dev_state \<Rightarrow> error option \<times> dev_state" where
  "close_app w s =
     (case app s of
        None \<Rightarrow> (None, s)
      | Some a \<Rightarrow>
          (let s1 = record_event (Close (app_id a)) s in
           case close_result w of
             Some err \<Rightarrow> (Some err, s1)
           | None \<Rightarrow> (None, s1\<lparr>app := Some (a\<lparr>app_listener := Closed\<rparr>)\<rparr>)))"

text \<open>
  \<^verbatim>\<open>restart()\<close>: \<^verbatim>\<open>setup()\<close> and \<^verbatim>\<open>close()\<close> are both called before either is
  awaited, and \<^verbatim>\<open>Promise.all\<close> rejects if one of them does. Then the new app is
  stored and \<^verbatim>\<open>listen\<close> is called on it without \<^verbatim>\<open>await\<close>: \<^verbatim>\<open>restart\<close> returns
  with the promise pending.
\<close>

definition restart :: "dev_world \<Rightarrow> dev_state \<Rightarrow> (error + unit) \<times> dev_state" where
  "restart w s =
     (case setup_app w s of (built, s1) \<Rightarrow>
      case close_app w s1 of (closed, s2) \<Rightarrow>
        (case (built, closed) of
           (Inl e1, Some e2) \<Rightarrow> (Inl (if close_rejects_first w then e2 else e1), s2)
         | (Inl e1, None) \<Rightarrow> (Inl e1, s2)
         | (Inr a, Some e2) \<Rightarrow> (Inl e2, s2)
         | (Inr a, None) \<Rightarrow>
             (Inr (), record_event (Listen (app_id a) (config_app_port w))
                        (s2\<lparr>app := Some (a\<lparr>app_listener := ListenPending (config_app_port w)\<rparr>)\<rparr>))))"

text \<open>
  What the event loop does later with a pending \<^verbatim>\<open>listen\<close>: it binds the port, or
  the promise rejects with nobody awaiting it.
\<close>

definition settle_listen :: "dev_world \<Rightarrow> dev_state \<Rightarrow> dev_state" where
  "settle_listen w s =
     (case app s of
        None \<Rightarrow> s
      | Some a \<Rightarrow>
          (case app_listener a of
             ListenPending port \<Rightarrow>
               (case listen_result w of
                  None \<Rightarrow> s\<lparr>app := Some (a\<lparr>app_listener := Listening port\<rparr>)\<rparr>
                | Some err \<Rightarrow>
                    record_event (UnhandledRejection err)
                      (s\<lparr>app := Some (a\<lparr>app_listener := NotListening\<rparr>)\<rparr>))
           | other \<Rightarrow> s))"

text \<open>The server answers on a port when its current app is bound to it.\<close>

definition reachable_on :: "dev_state \<Rightarrow> nat \<Rightarrow> bool" where
  "reachable_on s port = (case app s of None \<Rightarrow> False | Some a \<Rightarrow> app_listener a = Listening port)"

text \<open>
  The handler \<^verbatim>\<open>serverFileChange(type)\<close> returns, run on one event: reload, then
  restart; the catch logs and disposes the build context without replacing it.
\<close>

definition serverFileChange :: "dev_world \<Rightarrow> string \<Rightarrow> string \<Rightarrow> dev_state \<Rightarrow> dev_state" where
  "serverFileChange w type filename s =
     (let s0 = record_event (Debug (''file '' @ type @ '': '' @ filename))
                 (record_event (ConsoleLog ''Podium Podlet Server'') (record_event ConsoleClear s));
          s1 = record_event Reload s0;
          (res, s2) = (case reload_result w of
                         Some err \<Rightarrow> (Inl err, s1)
                       | None \<Rightarrow> restart w s1);
          s3 = (case res of
                  Inl err \<Rightarrow> record_event (Dispose (handle (buildContext s2))) (record_event (ErrorLog err) s2)
                | Inr u \<Rightarrow> s2)
      in record_event (Debug ''server restarted'') s3)"

subsection \<open>Notions the statements about the development server use\<close>

text \<open>
  The four logical entry points in the order \<^verbatim>\<open>createBuildContext\<close> resolves
  them, and the paths of those the resolver finds on disk.
\<close>

definition entry_names :: "string list" where
  "entry_names = [''./content'', ''./fallback'', ''./scripts'', ''./lazy'']"

definition existing_entry_points :: "dev_world \<Rightarrow> string list" where
  "existing_entry_points w = map res_path (filter res_exists (map (resolve w) entry_names))"

text \<open>
  The events of the life of a build context (a rebuild, a dispose, a call of
  \<^verbatim>\<open>createBuildContext\<close>) and those of the entry-point discovery (a resolution,
  the opening of a context on an entry-point list).
\<close>

fun is_lifecycle :: "dev_event \<Rightarrow> bool" where
  "is_lifecycle (Rebuild h) = True"
| "is_lifecycle (Dispose h) = True"
| "is_lifecycle CallCreateBuildContext = True"
| "is_lifecycle e = False"

fun is_discovery :: "dev_event \<Rightarrow> bool" where
  "is_discovery (ResolveEntry n) = True"
| "is_discovery (OpenContext eps) = True"
| "is_discovery e = False"

section \<open>Registries that occur, and the inputs of the examples\<close>

text \<open>
  A registry of the running program starts empty and changes only through
  \<^verbatim>\<open>define\<close>.
\<close>

inductive reachable :: "CustomElementRegistry \<Rightarrow> bool" where
  fresh: "reachable (new_registry dv)"
| defined: "reachable r \<Longrightarrow> define r name c = Inr r' \<Longrightarrow> reachable r'"

definition c1 :: ctor where
  "c1 = \<lparr>ctor_id = 1, ctor_observedAttributes = None\<rparr>"

definition c2 :: ctor where
  "c2 = \<lparr>ctor_id = 2, ctor_observedAttributes = Some [''open'']\<rparr>"

text \<open>The registry after \<^verbatim>\<open>define('app-content', c1)\<close> on an empty one.\<close>

definition registry_with_content :: "bool \<Rightarrow> CustomElementRegistry" where
  "registry_with_content dv =
     \<lparr>definitions = [''app-content'' \<mapsto> \<lparr>def_ctor = c1, observedAttributes = []\<rparr>], development = dv\<rparr>"

text \<open>
  The element importer of an app named \<^verbatim>\<open>app\<close> in \<^verbatim>\<open>/srv\<close>, in production and in
  development, and a world in which \<^verbatim>\<open>/srv/content.js\<close> resolves, no bundle is on
  disk yet, bundling works and the bundle exports \<open>c1\<close>.
\<close>

definition prod_plugin :: plugin where
  "prod_plugin = \<lparr>appName = ''app'', plugin_development = False, cwd = ''/srv''\<rparr>"

definition dev_plugin :: plugin where
  "dev_plugin = \<lparr>appName = ''app'', plugin_development = True, cwd = ''/srv''\<rparr>"

definition calm_world :: world where
  "calm_world =
     \<lparr>parse_name = (\<lambda>path. if path = ''/srv/content.js'' then ''content'' else []),
      require_resolve = (\<lambda>path. Inr path),
      stat_ok = (\<lambda>file. False),
      esbuild_build = (\<lambda>filepath outfile. None),
      import_default = (\<lambda>outfile. Inr (Some c1))\<rparr>"

text \<open>The bundle is on disk, and its module has no default export.\<close>

definition no_default_world :: world where
  "no_default_world = calm_world\<lparr>stat_ok := (\<lambda>file. True), import_default := (\<lambda>outfile. Inr None)\<rparr>"

text \<open>\<^verbatim>\<open>esbuild.build\<close> rejects, and the import that follows finds a bundle all the same.\<close>

definition build_fails_world :: world where
  "build_fails_world =
     calm_world\<lparr>esbuild_build := (\<lambda>filepath outfile. Some (Rejected ''Build failed with 1 error''))\<rparr>"

text \<open>Neither the bundling nor the import works.\<close>

definition broken_world :: world where
  "broken_world =
     calm_world\<lparr>esbuild_build := (\<lambda>filepath outfile. Some (Rejected ''Build failed with 1 error'')),
                import_default := (\<lambda>outfile. Inl (Rejected ''Cannot find module''))\<rparr>"

text \<open>The component file cannot be resolved.\<close>

definition unresolved_world :: world where
  "unresolved_world = calm_world\<lparr>require_resolve := (\<lambda>path. Inl (Rejected ''Cannot find module''))\<rparr>"

definition registered_state :: plugin_state where
  "registered_state = \<lparr>customElements = registry_with_content False, events = []\<rparr>"

definition first_import_state :: plugin_state where
  "first_import_state =
     snd (importElement prod_plugin calm_world ''/srv/content.js'' (plugin_start prod_plugin))"

text \<open>
  The routes of the same app in production, in each of the three modes, and a
  request during which the state function returns an object, there are no
  translations and every decorator renders.
\<close>

definition route_cfg :: "string \<Rightarrow> route_config" where
  "route_cfg m =
     \<lparr>app_name = ''app'', app_mode = m, app_development = False, podlet_version = Some ''1.0.0'',
      app_locale = ''en'', route_prefix = ''/'', config_cwd = ''/srv'',
      contentFilePath = ''/srv/content.js'', fallbackFilePath = ''/srv/fallback.js''\<rparr>"

definition calm_request :: request_world where
  "calm_request =
     \<lparr>state_fn = Inr (Some ''{}''), read_translations = Inr None, render_result = (\<lambda>m. None)\<rparr>"

text \<open>The same world for the fallback file.\<close>

definition fallback_world :: world where
  "fallback_world =
     calm_world\<lparr>parse_name := (\<lambda>path. if path = ''/srv/fallback.js'' then ''fallback'' else [])\<rparr>"

text \<open>
  A project in \<^verbatim>\<open>/srv\<close> with \<^verbatim>\<open>content.js\<close> and \<^verbatim>\<open>scripts.js\<close> and neither
  \<^verbatim>\<open>fallback.js\<close> nor \<^verbatim>\<open>lazy.js\<close>, in which every collaborator works; the same with
  a rebuild that fails on a stale graph; and the same with a port that cannot be
  bound.
\<close>

definition two_entries :: "string \<Rightarrow> resolution" where
  "two_entries n =
     (if n = ''./content'' then \<lparr>res_path = ''/srv/content.js'', res_exists = True\<rparr>
      else if n = ''./scripts'' then \<lparr>res_path = ''/srv/scripts.js'', res_exists = True\<rparr>
      else \<lparr>res_path = ''/srv/'' @ drop 2 n @ ''.js'', res_exists = False\<rparr>)"

definition calm_dev :: dev_world where
  "calm_dev =
     \<lparr>resolve = two_entries,
      esbuild_context = (\<lambda>eps. None),
      serve_result = None,
      rebuild_result = (\<lambda>ctx. None),
      dist_file = (\<lambda>entry. ''dist'' @ drop 4 entry),
      reload_result = None,
      setup_result = None,
      close_result = None,
      close_rejects_first = False,
      listen_result = None,
      config_app_port = 3000,
      client_outdir = ''/srv/dist/client''\<rparr>"

definition stale_dev :: dev_world where
  "stale_dev = calm_dev\<lparr>rebuild_result := (\<lambda>ctx. Some (Rejected ''Could not resolve''))\<rparr>"

definition port_taken_dev :: dev_world where
  "port_taken_dev = calm_dev\<lparr>listen_result := Some (Rejected ''EADDRINUSE'')\<rparr>"

text \<open>
  The state before the first build context, and the state of a server that has
  been started: context 0 open on \<^verbatim>\<open>content.js\<close> alone, app 0 bound to port 3000.
\<close>

definition boot_state :: dev_state where
  "boot_state =
     \<lparr>buildContext = \<lparr>handle = 0, entryPoints = [], ctx_outdir = []\<rparr>,
      clientFiles = [], CONTENT_FILEPATH = None, FALLBACK_FILEPATH = None,
      next_handle = 0, app = None, next_app = 0, trace = []\<rparr>"

definition running_state :: dev_state where
  "running_state =
     \<lparr>buildContext = \<lparr>handle = 0, entryPoints = [''/srv/content.js''], ctx_outdir = ''/srv/dist/client''\<rparr>,
      clientFiles = [''dist/content.js''],
      CONTENT_FILEPATH = Some \<lparr>res_path = ''/srv/content.js'', res_exists = True\<rparr>,
      FALLBACK_FILEPATH = Some \<lparr>res_path = ''/srv/fallback.js'', res_exists = False\<rparr>,
      next_handle = 1,
      app = Some \<lparr>app_id = 0, app_listener = Listening 3000\<rparr>,
      next_app = 1, trace = []\<rparr>"

section \<open>The registry\<close>

lemma define_no_empty_name:
  "define r name c = Inr r' \<Longrightarrow> definitions r [] = None \<Longrightarrow> definitions r' [] = None"
  by (auto simp: define_def split: if_splits)

lemma reachable_no_empty_name: "reachable r \<Longrightarrow> definitions r [] = None"
  by (induction rule: reachable.induct) (auto simp: new_registry_def define_no_empty_name)

lemma registry_with_content_reachable: "reachable (registry_with_content dv)"
proof -
  have "define (new_registry dv) ''app-content'' (Some c1) = Inr (registry_with_content dv)"
    by (simp add: define_def new_registry_def registry_with_content_def observed_or_empty_def c1_def)
  then show ?thesis
    using reachable.fresh reachable.defined by blast
qed

text \<open>
  Claim C10. A call of \<^verbatim>\<open>define\<close> with a falsy name or a falsy constructor returns
  without an error and hands back the registry it was given, whatever the mode: no
  entry is added, and an entry already stored under the name stays as it is.
\<close>

theorem define_falsy_is_noop:
  "define r [] c = Inr r \<and> define r name None = Inr r \<and>
   get (projr (define r name None)) name = get r name"
  by (simp add: define_def)

theorem define_falsy_is_noop_witness:
  "define (registry_with_content False) [] (Some c2) = Inr (registry_with_content False) \<and>
   define (registry_with_content False) ''app-content'' None = Inr (registry_with_content False) \<and>
   get (projr (define (registry_with_content False) ''app-content'' None)) ''app-content'' = Some c1"
  using define_falsy_is_noop [of "registry_with_content False" "Some c2" "''app-content''"]
  by (simp add: get_def registry_with_content_def)

text \<open>
  Claim C7, as amended. For a name already present in the registry, a call of
  \<^verbatim>\<open>define\<close> with that name and a constructor (a truthy second argument) throws
  the error that carries the name when the registry is in production mode, and in
  development mode succeeds and replaces the entry: the name then maps to the new
  constructor with its observed attributes, and the other entries are untouched.
\<close>

theorem define_duplicate_name:
  assumes "reachable r" and "definitions r name \<noteq> None"
  shows "(\<not> development r \<longrightarrow> define r name (Some c) = Inl (NameAlreadyUsed name)) \<and>
         (development r \<longrightarrow>
            (\<exists>r'. define r name (Some c) = Inr r' \<and> get r' name = Some c \<and>
                  definitions r' name = Some \<lparr>def_ctor = c, observedAttributes = observed_or_empty c\<rparr> \<and>
                  (\<forall>other. other \<noteq> name \<longrightarrow> definitions r' other = definitions r other)))"
proof -
  from assms have ne: "name \<noteq> []"
    using reachable_no_empty_name by fastforce
  show ?thesis
    using ne assms(2) by (auto simp: define_def get_def)
qed

text \<open>The theorem at \<^verbatim>\<open>app-content\<close>, defined once with \<open>c1\<close> and again with \<open>c2\<close>.\<close>

theorem define_duplicate_name_witness:
  "reachable (registry_with_content False) \<and>
   definitions (registry_with_content False) ''app-content'' \<noteq> None \<and>
   define (registry_with_content False) ''app-content'' (Some c2) = Inl (NameAlreadyUsed ''app-content'') \<and>
   (\<exists>r'. define (registry_with_content True) ''app-content'' (Some c2) = Inr r' \<and>
         get r' ''app-content'' = Some c2)"
proof -
  have present: "definitions (registry_with_content dv) ''app-content'' \<noteq> None" for dv
    by (simp add: registry_with_content_def)
  have modes: "\<not> development (registry_with_content False)" "development (registry_with_content True)"
    by (simp_all add: registry_with_content_def)
  from define_duplicate_name [OF registry_with_content_reachable present, of False c2]
       define_duplicate_name [OF registry_with_content_reachable present, of True c2]
       modes registry_with_content_reachable [of False] present [of False]
  show ?thesis by blast
qed

text \<open>
  Claim C7 as it is written fails for a call whose second argument is falsy, which
  is the call \<^verbatim>\<open>importElement\<close> makes in development mode after a failed import:
  with \<^verbatim>\<open>app-content\<close> present, \<^verbatim>\<open>define('app-content', undefined)\<close> throws
  nothing in production mode and replaces nothing in development mode.
\<close>

theorem define_duplicate_falsy_counterexample:
  "reachable (registry_with_content False) \<and>
   definitions (registry_with_content False) ''app-content'' \<noteq> None \<and>
   \<not> development (registry_with_content False) \<and>
   define (registry_with_content False) ''app-content'' None \<noteq> Inl (NameAlreadyUsed ''app-content'') \<and>
   reachable (registry_with_content True) \<and>
   development (registry_with_content True) \<and>
   define (registry_with_content True) ''app-content'' None = Inr (registry_with_content True) \<and>
   get (registry_with_content True) ''app-content'' = Some c1"
  using registry_with_content_reachable [of False] registry_with_content_reachable [of True]
  by (simp add: define_def registry_with_content_def get_def)

section \<open>The element importer\<close>

lemma events_emit: "events (emit e s) = events s @ [e]"
  by (simp add: emit_def)

lemma customElements_emit: "customElements (emit e s) = customElements s"
  by (simp add: emit_def)

lemma new_events_append: "events s' = events s @ es \<Longrightarrow> new_events s s' = es"
  by (simp add: events_emit customElements_emit new_events_def)

lemma resolve_step_events:
  "resolve_step p w path s = (res, s') \<Longrightarrow>
     customElements s' = customElements s \<and>
     (\<exists>es. events s' = events s @ es \<and> filter is_bundle es = [] \<and> filter is_import es = [])"
  by (auto simp: events_emit customElements_emit resolve_step_def Let_def split: sum.splits if_splits)

lemma bundle_step_events:
  "customElements (bundle_step p w filepath outfile s) = customElements s \<and>
   (\<exists>es. events (bundle_step p w filepath outfile s) = events s @ es \<and>
      filter is_import es = [] \<and>
      filter is_bundle es =
        (if plugin_development p \<or> \<not> stat_ok w outfile then [Bundle filepath outfile] else []))"
  by (auto simp: events_emit customElements_emit bundle_step_def Let_def split: option.splits)

lemma import_step_events:
  "import_step p w outfile s = (res, s') \<Longrightarrow>
     customElements s' = customElements s \<and>
     (\<exists>es. events s' = events s @ es \<and> filter is_bundle es = [] \<and> filter is_import es = [Import outfile])"
  by (auto simp: events_emit customElements_emit import_step_def Let_def split: sum.splits if_splits)

lemma define_step_events:
  "define_step p key element s = (res, s') \<Longrightarrow>
     (\<exists>es. events s' = events s @ es \<and> filter is_bundle es = [] \<and> filter is_import es = [])"
  by (auto simp: events_emit customElements_emit define_step_def Let_def split: sum.splits if_splits)


lemma importElement_invalid:
  "\<not> valid_name (parse_name w path) \<Longrightarrow>
     importElement p w path s = (Inl (InvalidPath path), emit (TimerStart ''import_element'') s)"
  by (simp add: events_emit customElements_emit importElement_def valid_name_def Let_def)

lemma importElement_fast:
  "valid_name (parse_name w path) \<Longrightarrow> \<not> plugin_development p \<Longrightarrow>
   get (customElements s) (registry_key p (parse_name w path)) \<noteq> None \<Longrightarrow>
     importElement p w path s = (Inr (), emit (TimerStart ''import_element'') s)"
  by (simp add: events_emit customElements_emit importElement_def valid_name_def Let_def)

lemma importElement_unresolved:
  "valid_name (parse_name w path) \<Longrightarrow> \<not> plugin_development p \<Longrightarrow>
   get (customElements s) (registry_key p (parse_name w path)) = None \<Longrightarrow>
   require_resolve w path = Inl e \<Longrightarrow>
     importElement p w path s =
       (Inl e, emit (LogError e) (emit (Resolve path) (emit (TimerStart ''import_element'') s)))"
  by (simp add: events_emit customElements_emit importElement_def valid_name_def Let_def resolve_step_def)

lemma resolve_step_go:
  "plugin_development p \<or> \<not> isl (require_resolve w path) \<Longrightarrow>
     \<exists>s1. resolve_step p w path s = (Inr (resolved_path w path), s1)"
  by (auto simp: events_emit customElements_emit resolve_step_def resolved_path_def Let_def split: sum.splits)

lemma importElement_go:
  assumes "reaches_bundling p w path s"
  obtains s1 where "resolve_step p w path (emit (TimerStart ''import_element'') s) = (Inr (resolved_path w path), s1)"
    and "importElement p w path s =
       (case import_step p w (outfile_of p (parse_name w path))
               (bundle_step p w (resolved_path w path) (outfile_of p (parse_name w path)) s1) of
          (Inl err, s3) \<Rightarrow> (Inl err, s3)
        | (Inr element, s3) \<Rightarrow>
            (case define_step p (registry_key p (parse_name w path)) element s3 of
               (Inl err, s4) \<Rightarrow> (Inl err, s4)
             | (Inr u, s4) \<Rightarrow> (Inr (), emit (TimerEnd ''import_element'') s4)))"
proof -
  from assms have v: "valid_name (parse_name w path)"
    and g: "plugin_development p \<or> get (customElements s) (registry_key p (parse_name w path)) = None"
    and r: "plugin_development p \<or> \<not> isl (require_resolve w path)"
    by (auto simp: events_emit customElements_emit reaches_bundling_def)
  from resolve_step_go [OF r] obtain s1 where
    s1: "resolve_step p w path (emit (TimerStart ''import_element'') s) = (Inr (resolved_path w path), s1)"
    by blast
  have "importElement p w path s =
       (case import_step p w (outfile_of p (parse_name w path))
               (bundle_step p w (resolved_path w path) (outfile_of p (parse_name w path)) s1) of
          (Inl err, s3) \<Rightarrow> (Inl err, s3)
        | (Inr element, s3) \<Rightarrow>
            (case define_step p (registry_key p (parse_name w path)) element s3 of
               (Inl err, s4) \<Rightarrow> (Inl err, s4)
             | (Inr u, s4) \<Rightarrow> (Inr (), emit (TimerEnd ''import_element'') s4)))"
  proof -
    have ng: "\<not> (\<not> plugin_development p \<and> get (customElements (emit (TimerStart ''import_element'') s)) (registry_key p (parse_name w path)) \<noteq> None)"
      using g by (auto simp: events_emit customElements_emit)
    have nv: "\<not> (parse_name w path = [] \<or> parse_name w path = ''.'')"
      using v by (simp add: events_emit customElements_emit valid_name_def)
    show ?thesis
      unfolding importElement_def Let_def
      by (simp only: ng nv if_False s1 prod.case sum.case)
  qed
  with s1 show ?thesis by (rule that)
qed

lemma tail_events:
  assumes "(case import_step p w outfile s2 of
          (Inl err, s3) \<Rightarrow> (Inl err, s3)
        | (Inr element, s3) \<Rightarrow>
            (case define_step p key element s3 of
               (Inl err, s4) \<Rightarrow> (Inl err, s4)
             | (Inr u, s4) \<Rightarrow> (Inr (), emit (TimerEnd ''import_element'') s4))) = (res, s')"
  shows "\<exists>es. events s' = events s2 @ es \<and> filter is_bundle es = [] \<and> filter is_import es = [Import outfile]"
proof (cases "import_step p w outfile s2")
  case (Pair r3 s3)
  from import_step_events [OF Pair] obtain es3 where
    e3: "events s3 = events s2 @ es3" "filter is_bundle es3 = []" "filter is_import es3 = [Import outfile]"
    by blast
  show ?thesis
  proof (cases r3)
    case (Inl err)
    with Pair assms have "s' = s3" by (simp add: events_emit customElements_emit)
    with e3 show ?thesis by blast
  next
    case (Inr element)
    show ?thesis
    proof (cases "define_step p key element s3")
      case (Pair r4 s4)
      note d = this
      from define_step_events [OF d] obtain es4 where
        e4: "events s4 = events s3 @ es4" "filter is_bundle es4 = []" "filter is_import es4 = []"
        by blast
      show ?thesis
      proof (cases r4)
        case (Inl err)
        with d Inr \<open>import_step p w outfile s2 = (r3, s3)\<close> assms have "s' = s4" by (simp add: events_emit customElements_emit)
        with e3 e4 show ?thesis by (simp add: events_emit customElements_emit)
      next
        case (Inr u)
        with d \<open>r3 = Inr element\<close> \<open>import_step p w outfile s2 = (r3, s3)\<close> assms
        have "s' = emit (TimerEnd ''import_element'') s4" by (simp add: events_emit customElements_emit)
        with e3 e4 show ?thesis by (simp add: events_emit customElements_emit)
      qed
    qed
  qed
qed

lemma importElement_events:
  obtains es where "events (snd (importElement p w path s)) = events s @ es"
    and "filter is_bundle es =
     (if reaches_bundling p w path s \<and>
         (plugin_development p \<or> \<not> stat_ok w (outfile_of p (parse_name w path)))
      then [Bundle (resolved_path w path) (outfile_of p (parse_name w path))]
      else [])"
    and "filter is_import es =
     (if reaches_bundling p w path s then [Import (outfile_of p (parse_name w path))] else [])"
proof (cases "reaches_bundling p w path s")
  case True
  from True obtain s1 where
    s1: "resolve_step p w path (emit (TimerStart ''import_element'') s) = (Inr (resolved_path w path), s1)"
    and eq: "importElement p w path s =
       (case import_step p w (outfile_of p (parse_name w path))
               (bundle_step p w (resolved_path w path) (outfile_of p (parse_name w path)) s1) of
          (Inl err, s3) \<Rightarrow> (Inl err, s3)
        | (Inr element, s3) \<Rightarrow>
            (case define_step p (registry_key p (parse_name w path)) element s3 of
               (Inl err, s4) \<Rightarrow> (Inl err, s4)
             | (Inr u, s4) \<Rightarrow> (Inr (), emit (TimerEnd ''import_element'') s4)))"
    by (rule importElement_go)
  from resolve_step_events [OF s1] obtain es1 where
    e1: "events s1 = events s @ [TimerStart ''import_element''] @ es1"
      "filter is_bundle es1 = []" "filter is_import es1 = []"
    by (auto simp: events_emit customElements_emit)
  let ?s2 = "bundle_step p w (resolved_path w path) (outfile_of p (parse_name w path)) s1"
  from bundle_step_events [of p w "resolved_path w path" "outfile_of p (parse_name w path)" s1]
  obtain es2 where
    e2: "events ?s2 = events s1 @ es2" "filter is_import es2 = []"
      "filter is_bundle es2 =
        (if plugin_development p \<or> \<not> stat_ok w (outfile_of p (parse_name w path))
         then [Bundle (resolved_path w path) (outfile_of p (parse_name w path))] else [])"
    by blast
  obtain res s' where rs: "importElement p w path s = (res, s')"
    by (cases "importElement p w path s")
  have "(case import_step p w (outfile_of p (parse_name w path)) ?s2 of
          (Inl err, s3) \<Rightarrow> (Inl err, s3)
        | (Inr element, s3) \<Rightarrow>
            (case define_step p (registry_key p (parse_name w path)) element s3 of
               (Inl err, s4) \<Rightarrow> (Inl err, s4)
             | (Inr u, s4) \<Rightarrow> (Inr (), emit (TimerEnd ''import_element'') s4))) = (res, s')"
    using eq rs by (simp add: events_emit customElements_emit)
  from tail_events [OF this] obtain es3 where
    e3: "events s' = events ?s2 @ es3" "filter is_bundle es3 = []"
      "filter is_import es3 = [Import (outfile_of p (parse_name w path))]"
    by blast
  let ?es = "[TimerStart ''import_element''] @ es1 @ es2 @ es3"
  have ev: "events (snd (importElement p w path s)) = events s @ ?es"
    by (simp only: rs snd_conv e3(1) e2(1) e1(1) append_assoc)
  have fb: "filter is_bundle ?es = filter is_bundle es2"
    using e1(2) e3(2) by (simp add: events_emit customElements_emit)
  have fi: "filter is_import ?es = [Import (outfile_of p (parse_name w path))]"
    using e1(3) e2(2) e3(3) by (simp add: events_emit customElements_emit)
  show ?thesis
  proof (rule that [of ?es])
    show "events (snd (importElement p w path s)) = events s @ ?es" by (rule ev)
    show "filter is_bundle ?es =
     (if reaches_bundling p w path s \<and>
         (plugin_development p \<or> \<not> stat_ok w (outfile_of p (parse_name w path)))
      then [Bundle (resolved_path w path) (outfile_of p (parse_name w path))]
      else [])"
      by (simp only: fb e2(3) True simp_thms)
    show "filter is_import ?es =
     (if reaches_bundling p w path s then [Import (outfile_of p (parse_name w path))] else [])"
      by (simp only: fi True if_True)
  qed
next
  case False
  have "\<exists>es. events (snd (importElement p w path s)) = events s @ es \<and>
          filter is_bundle es = [] \<and> filter is_import es = []"
  proof (cases "valid_name (parse_name w path)")
    case nv: False
    show ?thesis using importElement_invalid [OF nv] by (simp add: events_emit customElements_emit)
  next
    case v: True
    with False have nd: "\<not> plugin_development p"
      and c: "get (customElements s) (registry_key p (parse_name w path)) \<noteq> None \<or> isl (require_resolve w path)"
      by (auto simp: events_emit customElements_emit reaches_bundling_def)
    show ?thesis
    proof (cases "get (customElements s) (registry_key p (parse_name w path)) = None")
      case True
      with c obtain e where "require_resolve w path = Inl e"
        by (cases "require_resolve w path") auto
      from importElement_unresolved [OF v nd True this] show ?thesis by (simp add: events_emit customElements_emit)
    next
      case ng: False
      from importElement_fast [OF v nd ng] show ?thesis by (simp add: events_emit customElements_emit)
    qed
  qed
  then obtain es where "events (snd (importElement p w path s)) = events s @ es"
    "filter is_bundle es = []" "filter is_import es = []"
    by blast
  with False show ?thesis by (intro that [of es]) simp_all
qed

text \<open>
  Claim C9, as amended. In a call of \<^verbatim>\<open>importElement\<close> that reaches the bundling
  step (the name is usable and, in production mode, the key is not registered yet
  and the path resolves), the bundler is invoked, once, on the resolved path and
  the outfile, if and only if the process is in development mode or the \<^verbatim>\<open>stat\<close>
  of \<^verbatim>\<open>dist/server/<name>.js\<close> fails; a call that leaves before that step never
  invokes it.
\<close>

theorem bundler_invoked_iff:
  "filter is_bundle (new_events s (snd (importElement p w path s))) =
     (if reaches_bundling p w path s \<and>
         (plugin_development p \<or> \<not> stat_ok w (outfile_of p (parse_name w path)))
      then [Bundle (resolved_path w path) (outfile_of p (parse_name w path))]
      else [])"
proof -
  obtain es where ev: "events (snd (importElement p w path s)) = events s @ es"
    and fb: "filter is_bundle es =
     (if reaches_bundling p w path s \<and>
         (plugin_development p \<or> \<not> stat_ok w (outfile_of p (parse_name w path)))
      then [Bundle (resolved_path w path) (outfile_of p (parse_name w path))]
      else [])"
    by (rule importElement_events)
  from new_events_append [OF ev] fb show ?thesis by (simp add: events_emit customElements_emit)
qed

text \<open>The theorem at a development-mode call, which bundles.\<close>

theorem bundler_invoked_iff_witness:
  "reaches_bundling dev_plugin calm_world ''/srv/content.js'' (plugin_start dev_plugin) \<and>
   filter is_bundle (new_events (plugin_start dev_plugin)
      (snd (importElement dev_plugin calm_world ''/srv/content.js'' (plugin_start dev_plugin)))) =
   [Bundle ''/srv/content.js'' ''/srv/dist/server/content.js'']"
  using bundler_invoked_iff [of "plugin_start dev_plugin" dev_plugin calm_world "''/srv/content.js''"]
  by (simp add: events_emit customElements_emit dev_plugin_def calm_world_def plugin_start_def new_registry_def reaches_bundling_def
      valid_name_def resolved_path_def outfile_of_def outdir_def)

text \<open>
  Claim C9 as it is written fails where the call leaves before the bundling step.
  In production mode with \<^verbatim>\<open>app-content\<close> registered, the outfile is absent
  (its \<^verbatim>\<open>stat\<close> would fail) and yet no bundler runs: the call has returned on the
  fast path. The same holds in production mode when the key is not registered and
  the component file does not resolve: the call throws before the bundling step.
\<close>

theorem bundler_skipped_counterexample:
  "\<not> stat_ok calm_world (outfile_of prod_plugin (parse_name calm_world ''/srv/content.js'')) \<and>
   fst (importElement prod_plugin calm_world ''/srv/content.js'' registered_state) = Inr () \<and>
   filter is_bundle (new_events registered_state
      (snd (importElement prod_plugin calm_world ''/srv/content.js'' registered_state))) = [] \<and>
   \<not> stat_ok unresolved_world (outfile_of prod_plugin (parse_name unresolved_world ''/srv/content.js'')) \<and>
   fst (importElement prod_plugin unresolved_world ''/srv/content.js'' (plugin_start prod_plugin)) =
     Inl (Rejected ''Cannot find module'') \<and>
   filter is_bundle (new_events (plugin_start prod_plugin)
      (snd (importElement prod_plugin unresolved_world ''/srv/content.js'' (plugin_start prod_plugin)))) = []"
  by (simp add: events_emit customElements_emit prod_plugin_def calm_world_def unresolved_world_def registered_state_def
      registry_with_content_def plugin_start_def new_registry_def c1_def
      importElement_def resolve_step_def bundle_step_def import_step_def define_step_def
      define_def get_def emit_def outfile_of_def outdir_def registry_key_def
      observed_or_empty_def Let_def new_events_def)

text \<open>
  Claim C3, as amended. In production mode, when a call of \<^verbatim>\<open>importElement\<close> has
  completed and left the derived key registered, a second call with the same path
  (which \<^verbatim>\<open>parse\<close> gives the same name) returns at once: it returns no value, performs no I/O (its only event is the start
  of the timer), leaves the registry as it was, with the constructor still
  available through \<^verbatim>\<open>get\<close>, and the two calls together have bundled at most once
  and imported at most once.
\<close>

theorem importElement_production_once:
  assumes prod: "\<not> plugin_development p"
    and first: "importElement p w1 path s = (Inr (), s1)"
    and reg: "get (customElements s1) (registry_key p (parse_name w1 path)) = Some c"
    and same: "parse_name w2 path = parse_name w1 path"
  shows "importElement p w2 path s1 = (Inr (), emit (TimerStart ''import_element'') s1) \<and>
     filter is_io (new_events s1 (snd (importElement p w2 path s1))) = [] \<and>
     customElements (snd (importElement p w2 path s1)) = customElements s1 \<and>
     get (customElements (snd (importElement p w2 path s1))) (registry_key p (parse_name w2 path)) = Some c \<and>
     length (filter is_bundle (new_events s (snd (importElement p w2 path s1)))) \<le> 1 \<and>
     length (filter is_import (new_events s (snd (importElement p w2 path s1)))) \<le> 1"
proof -
  have v: "valid_name (parse_name w1 path)"
  proof (rule ccontr)
    assume "\<not> valid_name (parse_name w1 path)"
    from importElement_invalid [OF this, of p s] first show False by (simp add: events_emit customElements_emit)
  qed
  then have v2: "valid_name (parse_name w2 path)" by (simp add: events_emit customElements_emit same)
  from reg same have r2: "get (customElements s1) (registry_key p (parse_name w2 path)) \<noteq> None"
    by (simp add: events_emit customElements_emit)
  have second: "importElement p w2 path s1 = (Inr (), emit (TimerStart ''import_element'') s1)"
    by (rule importElement_fast [OF v2 prod r2])
  obtain es where ev: "events (snd (importElement p w1 path s)) = events s @ es"
    and fb: "filter is_bundle es =
     (if reaches_bundling p w1 path s \<and>
         (plugin_development p \<or> \<not> stat_ok w1 (outfile_of p (parse_name w1 path)))
      then [Bundle (resolved_path w1 path) (outfile_of p (parse_name w1 path))]
      else [])"
    and fi: "filter is_import es =
     (if reaches_bundling p w1 path s then [Import (outfile_of p (parse_name w1 path))] else [])"
    by (rule importElement_events)
  from ev first have ev1: "events s1 = events s @ es" by (simp add: events_emit customElements_emit)
  have both: "new_events s (emit (TimerStart ''import_element'') s1) = es @ [TimerStart ''import_element'']"
    by (rule new_events_append) (simp add: ev1 events_emit)
  have "length (filter is_bundle es) \<le> 1" "length (filter is_import es) \<le> 1"
    using fb fi by (simp_all add: events_emit customElements_emit split: if_splits)
  then show ?thesis
    using second reg same both by (simp add: events_emit customElements_emit new_events_def)
qed

text \<open>The theorem at two production calls for \<^verbatim>\<open>/srv/content.js\<close>.\<close>

theorem importElement_production_once_witness:
  "\<not> plugin_development prod_plugin \<and>
   importElement prod_plugin calm_world ''/srv/content.js'' (plugin_start prod_plugin) = (Inr (), first_import_state) \<and>
   get (customElements first_import_state) (registry_key prod_plugin (parse_name calm_world ''/srv/content.js'')) = Some c1 \<and>
   importElement prod_plugin calm_world ''/srv/content.js'' first_import_state =
     (Inr (), emit (TimerStart ''import_element'') first_import_state) \<and>
   filter is_io (new_events first_import_state
      (snd (importElement prod_plugin calm_world ''/srv/content.js'' first_import_state))) = [] \<and>
   length (filter is_import (new_events (plugin_start prod_plugin)
      (snd (importElement prod_plugin calm_world ''/srv/content.js'' first_import_state)))) \<le> 1"
proof -
  have prod: "\<not> plugin_development prod_plugin" by (simp add: events_emit customElements_emit prod_plugin_def)
  have first: "importElement prod_plugin calm_world ''/srv/content.js'' (plugin_start prod_plugin) =
      (Inr (), first_import_state)"
    by (simp add: events_emit customElements_emit first_import_state_def prod_plugin_def calm_world_def plugin_start_def new_registry_def
        c1_def importElement_def resolve_step_def bundle_step_def import_step_def define_step_def
        define_def get_def emit_def outfile_of_def outdir_def registry_key_def
        observed_or_empty_def Let_def)
  have reg: "get (customElements first_import_state)
      (registry_key prod_plugin (parse_name calm_world ''/srv/content.js'')) = Some c1"
    by (simp add: events_emit customElements_emit first_import_state_def prod_plugin_def calm_world_def plugin_start_def new_registry_def
        c1_def importElement_def resolve_step_def bundle_step_def import_step_def define_step_def
        define_def get_def emit_def outfile_of_def outdir_def registry_key_def
        observed_or_empty_def Let_def)
  from importElement_production_once [OF prod first reg refl] prod first reg
  show ?thesis by blast
qed

text \<open>
  Claim C3 as it is written fails when the first call registers nothing. Here the
  bundle's module has no default export: both production calls complete, and the
  outfile is imported twice.
\<close>

theorem importElement_production_twice_counterexample:
  "fst (importElement prod_plugin no_default_world ''/srv/content.js'' (plugin_start prod_plugin)) = Inr () \<and>
   fst (importElement prod_plugin no_default_world ''/srv/content.js''
         (snd (importElement prod_plugin no_default_world ''/srv/content.js'' (plugin_start prod_plugin)))) = Inr () \<and>
   filter is_import (events (snd (importElement prod_plugin no_default_world ''/srv/content.js''
         (snd (importElement prod_plugin no_default_world ''/srv/content.js'' (plugin_start prod_plugin)))))) =
     [Import ''/srv/dist/server/content.js'', Import ''/srv/dist/server/content.js'']"
  by (simp add: events_emit customElements_emit prod_plugin_def calm_world_def no_default_world_def plugin_start_def new_registry_def
      importElement_def resolve_step_def bundle_step_def import_step_def define_step_def
      define_def get_def emit_def outfile_of_def outdir_def registry_key_def Let_def)

text \<open>
  What holds of the failures of a call. In development mode a call with a usable
  name never throws: the failures of resolving, bundling, importing and defining
  are logged and the call goes on. In production mode a failed import leaves
  \<^verbatim>\<open>importElement\<close> as the error of the call.
\<close>

lemma import_step_development:
  "plugin_development p \<Longrightarrow> \<exists>element s'. import_step p w outfile s = (Inr element, s')"
  by (auto simp: events_emit customElements_emit import_step_def Let_def split: sum.splits)

lemma import_step_production_failure:
  "\<not> plugin_development p \<Longrightarrow> import_default w outfile = Inl e \<Longrightarrow>
     fst (import_step p w outfile s) = Inl e"
  by (simp add: events_emit customElements_emit import_step_def Let_def)

lemma define_step_development:
  "plugin_development p \<Longrightarrow> fst (define_step p key element s) = Inr ()"
  by (auto simp: events_emit customElements_emit define_step_def Let_def split: sum.splits)

lemma importElement_development_swallows:
  assumes dv: "plugin_development p" and v: "valid_name (parse_name w path)"
  shows "fst (importElement p w path s) = Inr ()"
proof -
  from dv v have "reaches_bundling p w path s"
    by (simp add: events_emit customElements_emit reaches_bundling_def)
  then obtain s1 where
    eq: "importElement p w path s =
       (case import_step p w (outfile_of p (parse_name w path))
               (bundle_step p w (resolved_path w path) (outfile_of p (parse_name w path)) s1) of
          (Inl err, s3) \<Rightarrow> (Inl err, s3)
        | (Inr element, s3) \<Rightarrow>
            (case define_step p (registry_key p (parse_name w path)) element s3 of
               (Inl err, s4) \<Rightarrow> (Inl err, s4)
             | (Inr u, s4) \<Rightarrow> (Inr (), emit (TimerEnd ''import_element'') s4)))"
    by (rule importElement_go)
  from import_step_development [OF dv] obtain element s3 where
    i: "import_step p w (outfile_of p (parse_name w path))
          (bundle_step p w (resolved_path w path) (outfile_of p (parse_name w path)) s1) = (Inr element, s3)"
    by blast
  obtain r4 s4 where d: "define_step p (registry_key p (parse_name w path)) element s3 = (r4, s4)"
    by (cases "define_step p (registry_key p (parse_name w path)) element s3")
  from define_step_development [OF dv, of "registry_key p (parse_name w path)" element s3] d
  have "r4 = Inr ()" by (simp add: events_emit customElements_emit)
  with eq i d show ?thesis by (simp add: events_emit customElements_emit)
qed

lemma importElement_production_import_failure:
  assumes pr: "\<not> plugin_development p" and r: "reaches_bundling p w path s"
    and f: "import_default w (outfile_of p (parse_name w path)) = Inl e"
  shows "fst (importElement p w path s) = Inl e"
proof -
  from r obtain s1 where
    eq: "importElement p w path s =
       (case import_step p w (outfile_of p (parse_name w path))
               (bundle_step p w (resolved_path w path) (outfile_of p (parse_name w path)) s1) of
          (Inl err, s3) \<Rightarrow> (Inl err, s3)
        | (Inr element, s3) \<Rightarrow>
            (case define_step p (registry_key p (parse_name w path)) element s3 of
               (Inl err, s4) \<Rightarrow> (Inl err, s4)
             | (Inr u, s4) \<Rightarrow> (Inr (), emit (TimerEnd ''import_element'') s4)))"
    by (rule importElement_go)
  let ?s2 = "bundle_step p w (resolved_path w path) (outfile_of p (parse_name w path)) s1"
  obtain r3 s3 where i: "import_step p w (outfile_of p (parse_name w path)) ?s2 = (r3, s3)"
    by (cases "import_step p w (outfile_of p (parse_name w path)) ?s2")
  from import_step_production_failure [OF pr f, of ?s2] i have "r3 = Inl e" by (simp add: events_emit customElements_emit)
  with eq i show ?thesis by (simp add: events_emit customElements_emit)
qed

text \<open>
  Claim C4, at the inputs where the code departs from it. In production mode, with
  no bundle on disk, \<^verbatim>\<open>esbuild.build\<close> rejects: the error is logged and the call
  goes on; when the import then succeeds the call completes and registers the
  constructor, and when the import fails too it is the import's error that leaves
  \<^verbatim>\<open>importElement\<close>, not the bundler's.
\<close>

theorem importElement_production_bundle_failure_swallowed:
  "\<not> plugin_development prod_plugin \<and>
   esbuild_build build_fails_world ''/srv/content.js'' ''/srv/dist/server/content.js'' =
     Some (Rejected ''Build failed with 1 error'') \<and>
   fst (importElement prod_plugin build_fails_world ''/srv/content.js'' (plugin_start prod_plugin)) = Inr () \<and>
   LogError (Rejected ''Build failed with 1 error'') \<in>
     set (events (snd (importElement prod_plugin build_fails_world ''/srv/content.js'' (plugin_start prod_plugin)))) \<and>
   get (customElements (snd (importElement prod_plugin build_fails_world ''/srv/content.js''
     (plugin_start prod_plugin)))) ''app-content'' = Some c1 \<and>
   fst (importElement prod_plugin broken_world ''/srv/content.js'' (plugin_start prod_plugin)) =
     Inl (Rejected ''Cannot find module'')"
  by (simp add: events_emit customElements_emit prod_plugin_def calm_world_def build_fails_world_def broken_world_def plugin_start_def
      new_registry_def c1_def importElement_def resolve_step_def bundle_step_def import_step_def
      define_step_def define_def get_def emit_def outfile_of_def outdir_def registry_key_def
      observed_or_empty_def Let_def)

section \<open>The routes\<close>

text \<open>
  Claim C6, as amended. For a request to the content route on which nothing throws
  (the import of the component, made in the modes \<^verbatim>\<open>ssr-only\<close> and \<^verbatim>\<open>hydrate\<close>,
  the state function, the reading of the translations and the rendering
  decorators): in mode \<^verbatim>\<open>ssr-only\<close> the body is the server-rendered template and
  nothing else, so no hydration script; in mode \<^verbatim>\<open>hydrate\<close> the body is the
  hydration-support script followed by the template rendered for hydration.
\<close>

theorem content_route_body:
  assumes imported: "mode cfg = ''ssr-only'' \<or> mode cfg = ''hydrate'' \<Longrightarrow>
            fst (importElement (import_plugin cfg) w (contentFilePath cfg) s) = Inr ()"
    and state: "state_fn rw = Inr st"
    and messages: "read_translations rw = Inr msgs"
    and rendered: "\<forall>m. render_result rw m = None"
  shows "(mode cfg = ''ssr-only'' \<longrightarrow>
            reply_body (fst (content_route cfg w rw s)) =
              Some [Ssr ''content'' (route_template cfg ''content'' st msgs)]) \<and>
         (mode cfg = ''hydrate'' \<longrightarrow>
            reply_body (fst (content_route cfg w rw s)) =
              Some [Script (hydrate_support_url cfg) (app_development cfg),
                    Hydrate ''content'' (route_template cfg ''content'' st msgs)])"
proof (intro conjI impI)
  assume m: "mode cfg = ''ssr-only''"
  with imported obtain s1 where
    "importElement (import_plugin cfg) w (contentFilePath cfg) s = (Inr (), s1)"
    by (cases "importElement (import_plugin cfg) w (contentFilePath cfg) s") auto
  then show "reply_body (fst (content_route cfg w rw s)) =
              Some [Ssr ''content'' (route_template cfg ''content'' st msgs)]"
    using m state messages rendered
    by (simp add: content_route_def route_handler_def hydrateSupport_def content_markup_def
        render_def sent_reply_def)
next
  assume m: "mode cfg = ''hydrate''"
  with imported obtain s1 where
    "importElement (import_plugin cfg) w (contentFilePath cfg) s = (Inr (), s1)"
    by (cases "importElement (import_plugin cfg) w (contentFilePath cfg) s") auto
  then show "reply_body (fst (content_route cfg w rw s)) =
              Some [Script (hydrate_support_url cfg) (app_development cfg),
                    Hydrate ''content'' (route_template cfg ''content'' st msgs)]"
    using m state messages rendered
    by (simp add: content_route_def route_handler_def hydrateSupport_def content_markup_def
        render_def sent_reply_def)
qed

text \<open>The theorem at a production request in mode \<^verbatim>\<open>hydrate\<close>.\<close>

theorem content_route_body_witness:
  "fst (importElement (import_plugin (route_cfg ''hydrate'')) calm_world
         (contentFilePath (route_cfg ''hydrate'')) (plugin_start (import_plugin (route_cfg ''hydrate'')))) = Inr () \<and>
   state_fn calm_request = Inr (Some ''{}'') \<and>
   read_translations calm_request = Inr None \<and>
   (\<forall>m. render_result calm_request m = None) \<and>
   reply_body (fst (content_route (route_cfg ''hydrate'') calm_world calm_request
                     (plugin_start (import_plugin (route_cfg ''hydrate''))))) =
     Some [Script (hydrate_support_url (route_cfg ''hydrate'')) False,
           Hydrate ''content'' (route_template (route_cfg ''hydrate'') ''content'' (Some ''{}'') None)]"
proof -
  have i: "fst (importElement (import_plugin (route_cfg ''hydrate'')) calm_world
         (contentFilePath (route_cfg ''hydrate'')) (plugin_start (import_plugin (route_cfg ''hydrate'')))) = Inr ()"
    by (simp add: mode_def import_plugin_def route_cfg_def calm_world_def plugin_start_def
        new_registry_def c1_def importElement_def resolve_step_def bundle_step_def import_step_def
        define_step_def define_def get_def emit_def outfile_of_def outdir_def registry_key_def
        observed_or_empty_def Let_def)
  have st: "state_fn calm_request = Inr (Some ''{}'')"
    and ms: "read_translations calm_request = Inr None"
    and rn: "\<forall>m. render_result calm_request m = None"
    by (simp_all add: calm_request_def)
  have md: "mode (route_cfg ''hydrate'') = ''hydrate''"
    and dv: "app_development (route_cfg ''hydrate'') = False"
    by (simp_all add: mode_def route_cfg_def)
  from content_route_body [OF i st ms rn] md dv
  have "reply_body (fst (content_route (route_cfg ''hydrate'') calm_world calm_request
                     (plugin_start (import_plugin (route_cfg ''hydrate''))))) =
     Some [Script (hydrate_support_url (route_cfg ''hydrate'')) False,
           Hydrate ''content'' (route_template (route_cfg ''hydrate'') ''content'' (Some ''{}'') None)]"
    by simp
  with i st ms rn show ?thesis by blast
qed

text \<open>
  Claim C6 as it is written fails for a request on which a step throws. In mode
  \<^verbatim>\<open>ssr-only\<close> and in production, the import of the component fails: the handler
  logs the error and returns the reply without a body.
\<close>

theorem content_route_no_body_counterexample:
  "mode (route_cfg ''ssr-only'') = ''ssr-only'' \<and>
   reply_body (fst (content_route (route_cfg ''ssr-only'') broken_world calm_request
                     (plugin_start (import_plugin (route_cfg ''ssr-only''))))) = None \<and>
   logged (fst (content_route (route_cfg ''ssr-only'') broken_world calm_request
                 (plugin_start (import_plugin (route_cfg ''ssr-only''))))) =
     [Rejected ''Cannot find module'']"
  by (simp add: route_handler_def content_route_def content_markup_def hydrateSupport_def render_def
      sent_reply_def failed_reply_def mode_def import_plugin_def route_cfg_def calm_request_def
      calm_world_def broken_world_def plugin_start_def new_registry_def importElement_def
      resolve_step_def bundle_step_def import_step_def get_def emit_def outfile_of_def outdir_def
      registry_key_def Let_def)

text \<open>
  Claim C5, at the inputs where the code departs from it. With every step
  succeeding, the fallback route sends, in mode \<^verbatim>\<open>csr-only\<close>, the server-rendered
  template where the table has the raw tag rendered on the client; in mode
  \<^verbatim>\<open>ssr-only\<close>, the template rendered for hydration where the table has the
  server-rendered template; and in mode \<^verbatim>\<open>hydrate\<close>, the hydration script followed
  by the plain server-rendered template where the table has the template rendered
  for hydration. The content route, in the same three modes, sends what the table
  says.
\<close>

theorem fallback_route_departs_from_table:
  "reply_body (fst (fallback_route (route_cfg ''csr-only'') fallback_world calm_request
                     (plugin_start (import_plugin (route_cfg ''csr-only''))))) =
     Some [Ssr ''fallback'' (route_template (route_cfg ''csr-only'') ''fallback'' (Some ''{}'') None)] \<and>
   spec_table_body ''fallback'' (route_cfg ''csr-only'')
       (route_template (route_cfg ''csr-only'') ''fallback'' (Some ''{}'') None) =
     Some [Csr ''fallback'' (raw_tag (route_template (route_cfg ''csr-only'') ''fallback'' (Some ''{}'') None))] \<and>
   reply_body (fst (fallback_route (route_cfg ''ssr-only'') fallback_world calm_request
                     (plugin_start (import_plugin (route_cfg ''ssr-only''))))) =
     Some [Hydrate ''fallback'' (route_template (route_cfg ''ssr-only'') ''fallback'' (Some ''{}'') None)] \<and>
   spec_table_body ''fallback'' (route_cfg ''ssr-only'')
       (route_template (route_cfg ''ssr-only'') ''fallback'' (Some ''{}'') None) =
     Some [Ssr ''fallback'' (route_template (route_cfg ''ssr-only'') ''fallback'' (Some ''{}'') None)] \<and>
   reply_body (fst (fallback_route (route_cfg ''hydrate'') fallback_world calm_request
                     (plugin_start (import_plugin (route_cfg ''hydrate''))))) =
     Some [Script (hydrate_support_url (route_cfg ''hydrate'')) False,
           Ssr ''fallback'' (route_template (route_cfg ''hydrate'') ''fallback'' (Some ''{}'') None)] \<and>
   spec_table_body ''fallback'' (route_cfg ''hydrate'')
       (route_template (route_cfg ''hydrate'') ''fallback'' (Some ''{}'') None) =
     Some [Script (hydrate_support_url (route_cfg ''hydrate'')) False,
           Hydrate ''fallback'' (route_template (route_cfg ''hydrate'') ''fallback'' (Some ''{}'') None)] \<and>
   reply_body (fst (content_route (route_cfg ''csr-only'') calm_world calm_request
                     (plugin_start (import_plugin (route_cfg ''csr-only''))))) =
     spec_table_body ''content'' (route_cfg ''csr-only'')
       (route_template (route_cfg ''csr-only'') ''content'' (Some ''{}'') None) \<and>
   reply_body (fst (content_route (route_cfg ''ssr-only'') calm_world calm_request
                     (plugin_start (import_plugin (route_cfg ''ssr-only''))))) =
     spec_table_body ''content'' (route_cfg ''ssr-only'')
       (route_template (route_cfg ''ssr-only'') ''content'' (Some ''{}'') None) \<and>
   reply_body (fst (content_route (route_cfg ''hydrate'') calm_world calm_request
                     (plugin_start (import_plugin (route_cfg ''hydrate''))))) =
     spec_table_body ''content'' (route_cfg ''hydrate'')
       (route_template (route_cfg ''hydrate'') ''content'' (Some ''{}'') None)"
  by (simp add: route_handler_def content_route_def content_markup_def hydrateSupport_def render_def
      sent_reply_def failed_reply_def mode_def import_plugin_def route_cfg_def calm_request_def
      fallback_route_def fallback_markup_def fallback_world_def spec_table_body_def
      calm_world_def plugin_start_def new_registry_def c1_def importElement_def resolve_step_def
      bundle_step_def import_step_def define_step_def define_def get_def emit_def outfile_of_def
      outdir_def registry_key_def observed_or_empty_def Let_def)

section \<open>The development server\<close>

lemma trace_record_event: "trace (record_event e s) = trace s @ [e]"
  by (simp add: record_event_def)

lemma fields_record_event:
  "buildContext (record_event e s) = buildContext s"
  "next_handle (record_event e s) = next_handle s"
  "clientFiles (record_event e s) = clientFiles s"
  "app (record_event e s) = app s"
  "next_app (record_event e s) = next_app s"
  by (simp_all add: record_event_def)

lemma push_if_exists_chain:
  "push_if_exists d (push_if_exists c (push_if_exists b (push_if_exists a []))) =
     map res_path (filter res_exists [a, b, c, d])"
  by (simp add: trace_record_event fields_record_event push_if_exists_def)

lemma discovered_entry_points:
  "push_if_exists (resolve w ''./lazy'') (push_if_exists (resolve w ''./scripts'')
     (push_if_exists (resolve w ''./fallback'') (push_if_exists (resolve w ''./content'') []))) =
   existing_entry_points w"
  by (simp add: trace_record_event fields_record_event push_if_exists_chain existing_entry_points_def entry_names_def)

lemma createBuildContext_trace:
  "trace (snd (createBuildContext w s)) =
     trace s @ [CallCreateBuildContext] @ map ResolveEntry entry_names @
       [OpenContext (existing_entry_points w)] @
       (case esbuild_context w (existing_entry_points w) of
          Some err \<Rightarrow> []
        | None \<Rightarrow> [ServeContext (next_handle s) 6935])"
  unfolding createBuildContext_def Let_def discovered_entry_points
  by (simp add: trace_record_event fields_record_event entry_names_def record_event_def split: option.splits)

lemma createBuildContext_result:
  "fst (createBuildContext w s) = Inr ctx \<Longrightarrow>
     entryPoints ctx = existing_entry_points w \<and> handle ctx = next_handle s \<and>
     ctx_outdir ctx = client_outdir w"
  unfolding createBuildContext_def Let_def discovered_entry_points
  by (auto simp: trace_record_event fields_record_event record_event_def split: option.splits)


lemma new_trace_append: "trace s' = trace s @ es \<Longrightarrow> new_trace s s' = es"
  by (simp add: trace_record_event fields_record_event new_trace_def)

lemma filter_lifecycle_resolve: "filter is_lifecycle (map ResolveEntry ns) = []"
  by (induction ns) simp_all

lemma filter_discovery_resolve: "filter is_discovery (map ResolveEntry ns) = map ResolveEntry ns"
  by (induction ns) simp_all

lemma createBuildContext_lifecycle:
  "trace (snd (createBuildContext w s)) = trace s @ es \<Longrightarrow>
     filter is_lifecycle es = [CallCreateBuildContext] \<and>
     filter is_discovery es = map ResolveEntry entry_names @ [OpenContext (existing_entry_points w)]"
  by (auto simp: trace_record_event fields_record_event createBuildContext_trace filter_lifecycle_resolve filter_discovery_resolve
      split: option.splits)

text \<open>
  Claim C1. On a client-scope event the handler attempts exactly one rebuild, on the
  current build context. When it succeeds nothing else happens to the context. When
  it fails, the handler disposes that same context once and then calls
  \<^verbatim>\<open>createBuildContext\<close> once, which resolves the four entry points anew and
  opens a context on those the resolver finds on disk now; if the creation
  succeeds, that list is the entry-point list of the new current context.
\<close>

theorem clientFileChange_one_rebuild:
  assumes run: "clientFileChange w type filename s = (res, s')"
  shows "filter is_lifecycle (new_trace s s') =
           (if rebuild_result w (buildContext s) = None
            then [Rebuild (handle (buildContext s))]
            else [Rebuild (handle (buildContext s)), Dispose (handle (buildContext s)),
                  CallCreateBuildContext]) \<and>
         filter is_discovery (new_trace s s') =
           (if rebuild_result w (buildContext s) = None then []
            else map ResolveEntry entry_names @ [OpenContext (existing_entry_points w)]) \<and>
         (rebuild_result w (buildContext s) = None \<longrightarrow>
            res = Inr () \<and> buildContext s' = buildContext s) \<and>
         (rebuild_result w (buildContext s) \<noteq> None \<and> res = Inr () \<longrightarrow>
            entryPoints (buildContext s') = existing_entry_points w \<and>
            handle (buildContext s') = next_handle s)"
proof (cases "rebuild_result w (buildContext s)")
  case None
  with run have "res = Inr ()" and "buildContext s' = buildContext s"
    and "trace s' = trace s @ [ConsoleClear, ConsoleLog ''Podium Podlet Server'',
            Debug (''file '' @ type @ '': '' @ filename), Rebuild (handle (buildContext s)),
            Debug (''bundles rebuilt: '' @ join_comma (clientFiles s))]"
    by (auto simp: trace_record_event fields_record_event clientFileChange_def Let_def)
  with None show ?thesis
    by (simp add: trace_record_event fields_record_event new_trace_def)
next
  case (Some err)
  let ?s2 = "record_event (Dispose (handle (buildContext s)))
              (record_event (Rebuild (handle (buildContext s)))
                (record_event (Debug (''file '' @ type @ '': '' @ filename))
                  (record_event (ConsoleLog ''Podium Podlet Server'') (record_event ConsoleClear s))))"
  obtain r s3 where cb: "createBuildContext w ?s2 = (r, s3)"
    by (cases "createBuildContext w ?s2")
  define es where "es = [CallCreateBuildContext] @ map ResolveEntry entry_names @
       [OpenContext (existing_entry_points w)] @
       (case esbuild_context w (existing_entry_points w) of
          Some err \<Rightarrow> []
        | None \<Rightarrow> [ServeContext (next_handle ?s2) 6935])"
  have t3: "trace s3 = trace ?s2 @ es"
    using createBuildContext_trace [of w ?s2] cb by (simp add: trace_record_event fields_record_event es_def)
  from createBuildContext_lifecycle [of w ?s2 es] t3 cb
  have fl: "filter is_lifecycle es = [CallCreateBuildContext]"
    and fd: "filter is_discovery es = map ResolveEntry entry_names @ [OpenContext (existing_entry_points w)]"
    by (simp_all add: trace_record_event fields_record_event)
  have pre: "trace ?s2 = trace s @ [ConsoleClear, ConsoleLog ''Podium Podlet Server'',
            Debug (''file '' @ type @ '': '' @ filename), Rebuild (handle (buildContext s)),
            Dispose (handle (buildContext s))]"
    by (simp add: trace_record_event fields_record_event)
  show ?thesis
  proof (cases r)
    case (Inl err2)
    with run Some cb have "s' = s3" "res = Inl err2"
      by (auto simp: trace_record_event fields_record_event clientFileChange_def Let_def)
    with Some t3 pre fl fd show ?thesis
      by (simp add: trace_record_event fields_record_event new_trace_def)
  next
    case (Inr ctx)
    with run Some cb have s': "s' = record_event (Debug (''bundles rebuilt: '' @ join_comma (clientFiles s3)))
        (s3\<lparr>buildContext := ctx\<rparr>)"
      by (auto simp: trace_record_event fields_record_event clientFileChange_def Let_def)
    from createBuildContext_result [of w ?s2 ctx] cb Inr
    have c: "entryPoints ctx = existing_entry_points w" "handle ctx = next_handle s"
      by (simp_all add: trace_record_event fields_record_event)
    have "trace s' = trace s3 @ [Debug (''bundles rebuilt: '' @ join_comma (clientFiles s3))]"
      by (simp add: trace_record_event fields_record_event s' record_event_def)
    with Some t3 pre fl fd c s' show ?thesis
      by (simp add: trace_record_event fields_record_event new_trace_def)
  qed
qed



text \<open>
  The theorem at a change of \<^verbatim>\<open>content.js\<close> after \<^verbatim>\<open>scripts.js\<close> was added and
  the graph went stale: context 0 is disposed and context 1 is opened on both files.
\<close>

theorem clientFileChange_one_rebuild_witness:
  "rebuild_result stale_dev (buildContext running_state) \<noteq> None \<and>
   fst (clientFileChange stale_dev ''changed'' ''content.js'' running_state) = Inr () \<and>
   filter is_lifecycle (new_trace running_state
      (snd (clientFileChange stale_dev ''changed'' ''content.js'' running_state))) =
     [Rebuild 0, Dispose 0, CallCreateBuildContext] \<and>
   entryPoints (buildContext (snd (clientFileChange stale_dev ''changed'' ''content.js'' running_state))) =
     [''/srv/content.js'', ''/srv/scripts.js'']"
proof -
  obtain s' where run: "clientFileChange stale_dev ''changed'' ''content.js'' running_state = (Inr (), s')"
    by (simp add: trace_record_event fields_record_event stale_dev_def calm_dev_def running_state_def two_entries_def clientFileChange_def
        createBuildContext_def record_event_def push_if_exists_def Let_def)
  have stale: "rebuild_result stale_dev (buildContext running_state) \<noteq> None"
    by (simp add: trace_record_event fields_record_event stale_dev_def calm_dev_def)
  have h: "handle (buildContext running_state) = 0"
    by (simp add: trace_record_event fields_record_event running_state_def)
  have e: "existing_entry_points stale_dev = [''/srv/content.js'', ''/srv/scripts.js'']"
    by (simp add: trace_record_event fields_record_event stale_dev_def calm_dev_def two_entries_def entry_names_def existing_entry_points_def)
  from clientFileChange_one_rebuild [OF run] stale h e run
  show ?thesis by (simp add: trace_record_event fields_record_event)
qed

text \<open>
  Claim C2. \<^verbatim>\<open>createBuildContext\<close> resolves content, fallback, scripts and lazy
  through the Path Resolver, in this order, and opens the context on the list of
  the paths of those that exist, which is also the entry-point list of the context
  it returns. In particular, when content and scripts exist and fallback and lazy
  do not, the list is the content path followed by the scripts path.
\<close>

theorem createBuildContext_entry_points:
  "filter is_discovery (new_trace s (snd (createBuildContext w s))) =
     map ResolveEntry entry_names @ [OpenContext (existing_entry_points w)] \<and>
   (\<forall>ctx. fst (createBuildContext w s) = Inr ctx \<longrightarrow> entryPoints ctx = existing_entry_points w) \<and>
   set (existing_entry_points w) =
     {res_path (resolve w n) | n. n \<in> set entry_names \<and> res_exists (resolve w n)} \<and>
   (res_exists (resolve w ''./content'') \<and> res_exists (resolve w ''./scripts'') \<and>
    \<not> res_exists (resolve w ''./fallback'') \<and> \<not> res_exists (resolve w ''./lazy'') \<longrightarrow>
      filter is_discovery (new_trace s (snd (createBuildContext w s))) =
        map ResolveEntry entry_names @
        [OpenContext [res_path (resolve w ''./content''), res_path (resolve w ''./scripts'')]] \<and>
      (\<forall>ctx. fst (createBuildContext w s) = Inr ctx \<longrightarrow>
         entryPoints ctx = [res_path (resolve w ''./content''), res_path (resolve w ''./scripts'')]))"
proof -
  obtain es where es: "trace (snd (createBuildContext w s)) = trace s @ es"
    using createBuildContext_trace [of w s] by blast
  from createBuildContext_lifecycle [OF es] new_trace_append [OF es]
  have d: "filter is_discovery (new_trace s (snd (createBuildContext w s))) =
     map ResolveEntry entry_names @ [OpenContext (existing_entry_points w)]"
    by (simp add: trace_record_event fields_record_event)
  have r: "\<forall>ctx. fst (createBuildContext w s) = Inr ctx \<longrightarrow> entryPoints ctx = existing_entry_points w"
    using createBuildContext_result by blast
  have st: "set (existing_entry_points w) =
     {res_path (resolve w n) | n. n \<in> set entry_names \<and> res_exists (resolve w n)}"
    by (auto simp: trace_record_event fields_record_event existing_entry_points_def)
  have sc: "existing_entry_points w = [res_path (resolve w ''./content''), res_path (resolve w ''./scripts'')]"
    if "res_exists (resolve w ''./content'') \<and> res_exists (resolve w ''./scripts'') \<and>
        \<not> res_exists (resolve w ''./fallback'') \<and> \<not> res_exists (resolve w ''./lazy'')"
    using that by (simp add: trace_record_event fields_record_event existing_entry_points_def entry_names_def)
  show ?thesis
  proof (intro conjI)
    show "filter is_discovery (new_trace s (snd (createBuildContext w s))) =
       map ResolveEntry entry_names @ [OpenContext (existing_entry_points w)]"
      by (rule d)
    show "\<forall>ctx. fst (createBuildContext w s) = Inr ctx \<longrightarrow> entryPoints ctx = existing_entry_points w"
      by (rule r)
    show "set (existing_entry_points w) =
       {res_path (resolve w n) | n. n \<in> set entry_names \<and> res_exists (resolve w n)}"
      by (rule st)
    show "res_exists (resolve w ''./content'') \<and> res_exists (resolve w ''./scripts'') \<and>
      \<not> res_exists (resolve w ''./fallback'') \<and> \<not> res_exists (resolve w ''./lazy'') \<longrightarrow>
        filter is_discovery (new_trace s (snd (createBuildContext w s))) =
          map ResolveEntry entry_names @
          [OpenContext [res_path (resolve w ''./content''), res_path (resolve w ''./scripts'')]] \<and>
        (\<forall>ctx. fst (createBuildContext w s) = Inr ctx \<longrightarrow>
           entryPoints ctx = [res_path (resolve w ''./content''), res_path (resolve w ''./scripts'')])"
    proof
      assume h: "res_exists (resolve w ''./content'') \<and> res_exists (resolve w ''./scripts'') \<and>
        \<not> res_exists (resolve w ''./fallback'') \<and> \<not> res_exists (resolve w ''./lazy'')"
      from d r show "filter is_discovery (new_trace s (snd (createBuildContext w s))) =
          map ResolveEntry entry_names @
          [OpenContext [res_path (resolve w ''./content''), res_path (resolve w ''./scripts'')]] \<and>
        (\<forall>ctx. fst (createBuildContext w s) = Inr ctx \<longrightarrow>
           entryPoints ctx = [res_path (resolve w ''./content''), res_path (resolve w ''./scripts'')])"
        by (simp only: sc [OF h] simp_thms)
    qed
  qed
qed


text \<open>The theorem at the project with \<^verbatim>\<open>content.js\<close> and \<^verbatim>\<open>scripts.js\<close>.\<close>

theorem createBuildContext_entry_points_witness:
  "res_exists (resolve calm_dev ''./content'') \<and> res_exists (resolve calm_dev ''./scripts'') \<and>
   \<not> res_exists (resolve calm_dev ''./fallback'') \<and> \<not> res_exists (resolve calm_dev ''./lazy'') \<and>
   fst (createBuildContext calm_dev boot_state) =
     Inr \<lparr>handle = 0, entryPoints = [''/srv/content.js'', ''/srv/scripts.js''],
          ctx_outdir = ''/srv/dist/client''\<rparr>"
proof -
  have h: "res_exists (resolve calm_dev ''./content'') \<and> res_exists (resolve calm_dev ''./scripts'') \<and>
   \<not> res_exists (resolve calm_dev ''./fallback'') \<and> \<not> res_exists (resolve calm_dev ''./lazy'')"
    by (simp add: trace_record_event fields_record_event calm_dev_def two_entries_def)
  have p: "res_path (resolve calm_dev ''./content'') = ''/srv/content.js''"
    "res_path (resolve calm_dev ''./scripts'') = ''/srv/scripts.js''"
    by (simp_all add: calm_dev_def two_entries_def)
  obtain ctx where c: "fst (createBuildContext calm_dev boot_state) = Inr ctx"
    and f: "handle ctx = 0" "ctx_outdir ctx = ''/srv/dist/client''"
    by (simp add: trace_record_event fields_record_event createBuildContext_def Let_def calm_dev_def boot_state_def record_event_def)
  from createBuildContext_entry_points [of boot_state calm_dev] h
  have "\<forall>ctx. fst (createBuildContext calm_dev boot_state) = Inr ctx \<longrightarrow>
         entryPoints ctx = [res_path (resolve calm_dev ''./content''), res_path (resolve calm_dev ''./scripts'')]"
    by blast
  with c p have "entryPoints ctx = [''/srv/content.js'', ''/srv/scripts.js'']"
    by (simp add: trace_record_event fields_record_event)
  with c f h show ?thesis by (simp add: trace_record_event fields_record_event)
qed

lemma restart_trace:
  "new_trace s (snd (restart w s)) =
     [Setup (next_app s)] @
     (case app s of None \<Rightarrow> [] | Some a \<Rightarrow> [Close (app_id a)]) @
     (if setup_result w = None \<and> (app s = None \<or> close_result w = None)
      then [Listen (next_app s) (config_app_port w)] else [])"
  by (auto simp: trace_record_event fields_record_event restart_def setup_app_def close_app_def new_trace_def Let_def record_event_def
      split: option.splits)

lemma restart_never_bound:
  "fst (restart w s) = Inr () \<Longrightarrow>
     app (snd (restart w s)) = Some \<lparr>app_id = next_app s, app_listener = ListenPending (config_app_port w)\<rparr>"
  by (auto simp: trace_record_event fields_record_event restart_def setup_app_def close_app_def Let_def record_event_def
      split: option.splits)

text \<open>
  Claim C8, at the input where the code departs from it. A server file changes
  while app 0 is bound to port 3000, and the port cannot be bound again. The
  handler reloads, builds app 1 and closes app 0, calls \<^verbatim>\<open>listen\<close> on app 1 and
  returns while that promise is pending: it logs the restart and no error, and the
  server is not reachable. When the promise settles it is a rejection nobody awaits
  and the server stays unreachable. Even where the port can be bound, the server is
  not yet reachable when the sequence completes. \<^verbatim>\<open>start\<close>, which awaits
  \<^verbatim>\<open>listen\<close>, throws in the first world and returns with the port bound in the
  second.
\<close>

theorem restart_returns_before_listening:
  "reload_result port_taken_dev = None \<and> setup_result port_taken_dev = None \<and>
   close_result port_taken_dev = None \<and>
   reachable_on running_state 3000 \<and>
   new_trace running_state (serverFileChange port_taken_dev ''changed'' ''server.js'' running_state) =
     [ConsoleClear, ConsoleLog ''Podium Podlet Server'', Debug ''file changed: server.js'',
      Reload, Setup 1, Close 0, Listen 1 3000, Debug ''server restarted''] \<and>
   app (serverFileChange port_taken_dev ''changed'' ''server.js'' running_state) =
     Some \<lparr>app_id = 1, app_listener = ListenPending 3000\<rparr> \<and>
   \<not> reachable_on (serverFileChange port_taken_dev ''changed'' ''server.js'' running_state) 3000 \<and>
   \<not> reachable_on (settle_listen port_taken_dev
        (serverFileChange port_taken_dev ''changed'' ''server.js'' running_state)) 3000 \<and>
   UnhandledRejection (Rejected ''EADDRINUSE'') \<in> set (trace (settle_listen port_taken_dev
        (serverFileChange port_taken_dev ''changed'' ''server.js'' running_state))) \<and>
   \<not> reachable_on (serverFileChange calm_dev ''changed'' ''server.js'' running_state) 3000 \<and>
   fst (start port_taken_dev boot_state) = Inl (Rejected ''EADDRINUSE'') \<and>
   fst (start calm_dev boot_state) = Inr () \<and>
   reachable_on (snd (start calm_dev boot_state)) 3000"
  by (simp add: trace_record_event fields_record_event calm_dev_def port_taken_dev_def boot_state_def running_state_def record_event_def
      new_trace_def setup_app_def start_def close_app_def restart_def settle_listen_def
      reachable_on_def serverFileChange_def Let_def)

end
